theory Spec2Isabelle
  imports Complex_Main
begin

section \<open>Shared helpers of the Python sources\<close>

text \<open>
  A finite Python float is the real number it stands for. Where a result is compared with
  a threshold or truncated (the operability terms, the drawdown limit of the verdict, the
  loss limit of the kill switch), each float operation rounds its exact result to the
  nearest double, see \<open>dbl\<close> below; elsewhere arithmetic on finite values is taken as
  exact. In the indicator frame, where pandas produces NaN and infinities, a cell is a
  real, an infinity or NaN. Python ints are unbounded and modelled as \<open>int\<close>.
\<close>

text \<open>
  The exceptions of the model. \<open>ConfigError\<close> and \<open>DataError\<close> are the error classes
  that the specification names; the sources define no such class and raise neither.
\<close>

datatype py_error =
  KeyError string | IndexError | ZeroDivisionError | ValueError | ConfigError | DataError

text \<open>\<^verbatim>\<open>def clamp(x, lo, hi): return max(lo, min(hi, x))\<close> (scores.py, regimes.py, risk.py).\<close>

definition clamp :: "'a::linorder \<Rightarrow> 'a \<Rightarrow> 'a \<Rightarrow> 'a" where
  "clamp x lo hi = max lo (min hi x)"

text \<open>Python's \<^verbatim>\<open>int(x)\<close> on a float truncates toward zero.\<close>

definition py_int :: "real \<Rightarrow> int" where
  "py_int x = (if 0 \<le> x then \<lfloor>x\<rfloor> else \<lceil>x\<rceil>)"

text \<open>Python's \<^verbatim>\<open>sub in s\<close> on strings: \<open>sub\<close> occurs as a contiguous substring.\<close>

fun starts_with :: "string \<Rightarrow> string \<Rightarrow> bool" where
  "starts_with [] s = True"
| "starts_with (c # cs) [] = False"
| "starts_with (c # cs) (d # ds) = (c = d \<and> starts_with cs ds)"

fun contains :: "string \<Rightarrow> string \<Rightarrow> bool" where
  "contains sub [] = (sub = [])"
| "contains sub (c # cs) = (starts_with sub (c # cs) \<or> contains sub cs)"

text \<open>
  Rounding half to even, as Python's \<^verbatim>\<open>round\<close> and the \<^verbatim>\<open>.2f\<close> format do on
  the exact value of a float.
\<close>

definition round_half_even :: "real \<Rightarrow> int" where
  "round_half_even x =
     (let f = \<lfloor>x\<rfloor>; d = x - real_of_int f
      in if d < 1 / 2 then f else if d > 1 / 2 then f + 1 else if even f then f else f + 1)"

text \<open>
  Rounding to the nearest IEEE 754 double, ties to even: the magnitude is scaled by a
  power of two into \<open>[2^52, 2^53)\<close>, rounded to an integer and scaled back. The search
  for the exponent is bounded by the exponent range of doubles; overflow and subnormal
  numbers are not modelled.
\<close>

definition pow2 :: "int \<Rightarrow> real" where
  "pow2 e = (if 0 \<le> e then 2 ^ nat e else 1 / 2 ^ nat (- e))"

fun norm_exp :: "nat \<Rightarrow> real \<Rightarrow> int \<Rightarrow> int" where
  "norm_exp 0 m e = e"
| "norm_exp (Suc n) m e =
     (if m < 4503599627370496 then norm_exp n (m * 2) (e - 1)
      else if 9007199254740992 \<le> m then norm_exp n (m / 2) (e + 1)
      else e)"

definition dbl :: "real \<Rightarrow> real" where
  "dbl x =
     (if x = 0 then 0
      else let e = norm_exp 1100 \<bar>x\<bar> 0
           in real_of_int (round_half_even (x / pow2 e)) * pow2 e)"

text \<open>The float operations \<^verbatim>\<open>a * b\<close>, \<^verbatim>\<open>a / b\<close> (for \<open>b \<noteq> 0\<close>) and \<^verbatim>\<open>a - b\<close>.\<close>

definition fl_mul :: "real \<Rightarrow> real \<Rightarrow> real" where
  "fl_mul a b = dbl (a * b)"

definition fl_div :: "real \<Rightarrow> real \<Rightarrow> real" where
  "fl_div a b = dbl (a / b)"

definition fl_sub :: "real \<Rightarrow> real \<Rightarrow> real" where
  "fl_sub a b = dbl (a - b)"

section \<open>core/logic/costs.py\<close>

record cost_breakdown =
  total_bps :: int
  blocked :: bool
  max_block :: int
  break_even_pct :: real

definition compute :: "int \<Rightarrow> int \<Rightarrow> int \<Rightarrow> int \<Rightarrow> cost_breakdown" where
  "compute spread_bps slippage_bps fee_bps max_block_bps =
     (let total = spread_bps + slippage_bps + fee_bps;
          blocked = (total \<ge> max_block_bps)
      in \<lparr>total_bps = total, blocked = blocked, max_block = max_block_bps,
          break_even_pct = real_of_int total / 10000\<rparr>)"

section \<open>core/logic/regimes.py\<close>

text \<open>
  One row of the indicator frame returned by \<open>IndicatorEngine.calculate\<close>, restricted to
  the columns that the regime, score and verdict engines read. Rows reach these engines
  after \<^verbatim>\<open>dropna()\<close>, so every field holds a number. \<open>VaR95\<close> and \<open>CVaR95\<close> are
  read with \<^verbatim>\<open>last.get(name, 0.0)\<close>, hence optional.
\<close>

record indicator_row =
  close_final :: real
  SMA20 :: real
  SMA50 :: real
  ZScore :: real
  VolAnn :: real
  Drawdown :: real
  VaR95 :: "real option"
  CVaR95 :: "real option"

text \<open>
  \<^verbatim>\<open>(d["SMA20"].iloc[-1] - d["SMA20"].iloc[-6]) / (abs(d["SMA20"].iloc[-6]) + 1e-9)\<close>;
  \<^verbatim>\<open>iloc[-6]\<close> raises IndexError on a frame of fewer than six rows.
\<close>

definition sma_slope :: "indicator_row list \<Rightarrow> py_error + real" where
  "sma_slope d =
     (if length d < 1 then Inl IndexError
      else if length d < 6 then Inl IndexError
      else Inr ((SMA20 (d ! (length d - 1)) - SMA20 (d ! (length d - 6)))
                / (\<bar>SMA20 (d ! (length d - 6))\<bar> + 1 / 10 ^ 9)))"

text \<open>
  The operability score of \<open>RegimeEngine.analyze\<close> (lines 39 to 44): the integer
  \<open>score\<close> starts at 75 and four truncated terms are subtracted from it in turn; the
  final \<^verbatim>\<open>int(clamp(score, 0, 100))\<close> acts on an integer. Each term is a double:
  the products and the difference are rounded, \<^verbatim>\<open>0.8\<close> is the double nearest to 8/10,
  and \<open>cost_bps\<close> is converted to a double before it is multiplied.
\<close>

definition operability :: "real \<Rightarrow> real \<Rightarrow> real \<Rightarrow> int \<Rightarrow> int" where
  "operability z vol dd cost_bps =
     (let score = 75;
          score = score - py_int (fl_mul \<bar>z\<bar> 7);
          score = score - py_int (max 0 (fl_sub vol 25));
          score = score - py_int (fl_mul \<bar>dd\<bar> 120);
          score = score - py_int (fl_mul (dbl (real_of_int cost_bps)) (dbl (8 / 10)));
          score = clamp score 0 100
      in score)"

text \<open>
  The operability procedure in the words of the specification, for comparison with
  \<open>operability\<close>: start at 75, subtract each term from the running score and truncate the
  running score to an integer after each subtraction, then clamp to \<open>[0, 100]\<close>.
\<close>

definition operability_spec :: "real \<Rightarrow> real \<Rightarrow> real \<Rightarrow> int \<Rightarrow> int" where
  "operability_spec z vol dd cost_bps =
     (let s = 75;
          s = py_int (fl_sub (real_of_int s) (fl_mul 7 \<bar>z\<bar>));
          s = py_int (fl_sub (real_of_int s) (max 0 (fl_sub vol 25)));
          s = py_int (fl_sub (real_of_int s) (fl_mul 120 \<bar>dd\<bar>));
          s = py_int (fl_sub (real_of_int s) (fl_mul (dbl (8 / 10)) (dbl (real_of_int cost_bps))))
      in clamp s 0 100)"

record regime =
  label :: string
  z :: real
  vol :: real
  dd :: real
  slope :: real
  score :: int

definition analyze :: "indicator_row list \<Rightarrow> int \<Rightarrow> py_error + regime" where
  "analyze d cost_bps =
     (if d = [] then Inl IndexError
      else
        let lst = d ! (length d - 1);
            close = close_final lst;
            sma20 = SMA20 lst;
            sma50 = SMA50 lst;
            z = ZScore lst;
            vol = VolAnn lst;
            dd = Drawdown lst
        in case sma_slope d of
             Inl e \<Rightarrow> Inl e
           | Inr sl \<Rightarrow>
               let slope = sl;
                   up = (sma20 > sma50 \<and> close > sma20 \<and> slope > 0);
                   dn = (sma20 < sma50 \<and> close < sma20 \<and> slope < 0);
                   vol_hostil = (vol > 45);
                   stress = (dd < - (20 / 100));
                   label = (if stress then ''STRESS''
                            else if vol_hostil then ''VOL''
                            else if up then ''UPTREND''
                            else if dn then ''DOWNTREND''
                            else ''TRANSITION'');
                   label = (if \<bar>z\<bar> \<ge> 2 \<and> \<not> stress
                            then label @ (if z > 0 then '' EXT'' else '' DISC'')
                            else label)
               in Inr \<lparr>label = label, z = z, vol = vol, dd = dd, slope = slope,
                        score = operability z vol dd cost_bps\<rparr>)"

section \<open>core/logic/verdict.py\<close>

datatype status = AUTORIZADO | DEFENSIVO | BLOQUEIO

record verdict =
  status :: status
  command :: string
  reasons :: "string list"

text \<open>
  The two local variables of \<open>VerdictEngine.decide\<close>, threaded through its eight
  \<^verbatim>\<open>if\<close> statements.
\<close>

type_synonym vstate = "status \<times> string list"

text \<open>
  Rules 2 to 6 have the shape
  \<^verbatim>\<open>if cond: (if status != "BLOQUEIO": status = "DEFENSIVO"); reasons.append(code)\<close>.
\<close>

definition rule_defensive :: "bool \<Rightarrow> string \<Rightarrow> vstate \<Rightarrow> vstate" where
  "rule_defensive cond code st =
     (if cond then ((if fst st \<noteq> BLOQUEIO then DEFENSIVO else fst st), snd st @ [code])
      else st)"

text \<open>
  Rule 1: \<^verbatim>\<open>if cost["blocked"]: status = "BLOQUEIO"; reasons.append("COST_BLOCK")\<close>.
\<close>

definition rule_block :: "bool \<Rightarrow> string \<Rightarrow> vstate \<Rightarrow> vstate" where
  "rule_block cond code st = (if cond then (BLOQUEIO, snd st @ [code]) else st)"

text \<open>
  Rules 7 and 8 have the shape
  \<^verbatim>\<open>if cond and status != "BLOQUEIO": status = "DEFENSIVO"; reasons.append(code)\<close>:
  the test of the status guards the append as well.
\<close>

definition rule_guarded :: "bool \<Rightarrow> string \<Rightarrow> vstate \<Rightarrow> vstate" where
  "rule_guarded cond code st =
     (if cond \<and> fst st \<noteq> BLOQUEIO then (DEFENSIVO, snd st @ [code]) else st)"

text \<open>
  The eight rules in source order, as state transformers. The product
  \<^verbatim>\<open>float(regime["dd"]) * 100\<close> of rule 5 is a double.
\<close>

definition cascade ::
  "regime \<Rightarrow> cost_breakdown \<Rightarrow> real \<Rightarrow> real \<Rightarrow> real \<Rightarrow> real \<Rightarrow> real \<Rightarrow> (vstate \<Rightarrow> vstate) list" where
  "cascade regime cost ruin_pct scr strict_vol strict_dd_pct ruin_threshold =
     [rule_block (blocked cost) ''COST_BLOCK'',
      rule_defensive (contains ''STRESS'' (label regime)) ''REGIME_STRESS'',
      rule_defensive (contains ''VOL'' (label regime)) ''REGIME_VOL'',
      rule_defensive (vol regime > strict_vol) ''VOL_LIMIT'',
      rule_defensive (fl_mul (dd regime) 100 < strict_dd_pct) ''DD_LIMIT'',
      rule_defensive (ruin_pct > ruin_threshold) ''RUIN_HIGH'',
      rule_guarded (real_of_int (score regime) < 35) ''OPERABILITY_LOW'',
      rule_guarded (scr < 40) ''SCORE_LOW'']"

text \<open>Running the first rules of a cascade from the initial state of \<open>decide\<close>.\<close>

definition run_rules :: "(vstate \<Rightarrow> vstate) list \<Rightarrow> vstate" where
  "run_rules rs = fold (\<lambda>r st. r st) rs (AUTORIZADO, [])"

definition command_of :: "status \<Rightarrow> string" where
  "command_of s = (case s of AUTORIZADO \<Rightarrow> ''READY'' | DEFENSIVO \<Rightarrow> ''DEFENSIVE''
                   | BLOQUEIO \<Rightarrow> ''BLOCKED'')"

definition decide ::
  "regime \<Rightarrow> cost_breakdown \<Rightarrow> real \<Rightarrow> real \<Rightarrow> real \<Rightarrow> real \<Rightarrow> real \<Rightarrow> verdict" where
  "decide regime cost ruin_pct scr strict_vol strict_dd_pct ruin_threshold =
     (let st = run_rules (cascade regime cost ruin_pct scr strict_vol strict_dd_pct ruin_threshold)
      in \<lparr>status = fst st, command = command_of (fst st),
          reasons = (if snd st = [] then [''OK''] else snd st)\<rparr>)"

text \<open>The escalation order \<open>AUTORIZADO < DEFENSIVO < BLOQUEIO\<close>.\<close>

definition severity :: "status \<Rightarrow> nat" where
  "severity s = (case s of AUTORIZADO \<Rightarrow> 0 | DEFENSIVO \<Rightarrow> 1 | BLOQUEIO \<Rightarrow> 2)"

text \<open>A reason is reported when its condition holds: \<^verbatim>\<open>[code] if cond else []\<close>.\<close>

definition reason_if :: "bool \<Rightarrow> string \<Rightarrow> string list" where
  "reason_if cond code = (if cond then [code] else [])"

section \<open>database/sqlite_store.py: the ledger\<close>

text \<open>
  A row of the \<open>ledger\<close> table, with the two columns that \<open>daily_realized_pnl\<close> reads
  and the ticker. \<open>log_order\<close> always stores a float in \<open>realized_pnl\<close>.
\<close>

record ledger_row =
  timestamp_utc :: string
  ledger_ticker :: string
  realized_pnl :: real

text \<open>
  \<^verbatim>\<open>SELECT COALESCE(SUM(realized_pnl), 0.0) FROM ledger WHERE substr(timestamp_utc, 1, 10) = ?\<close>
\<close>

definition daily_realized_pnl :: "ledger_row list \<Rightarrow> string \<Rightarrow> real" where
  "daily_realized_pnl rows date_utc =
     sum_list (map realized_pnl (filter (\<lambda>r. take 10 (timestamp_utc r) = date_utc) rows))"

section \<open>core/execution/safety_guard.py\<close>

text \<open>Decimal digits, \<^verbatim>\<open>str.upper\<close> on ASCII letters, \<^verbatim>\<open>str.split\<close> on one character.\<close>

definition digit_char :: "nat \<Rightarrow> char" where
  "digit_char d = ''0123456789'' ! d"

definition digit_val :: "char \<Rightarrow> nat option" where
  "digit_val c = map_of (zip ''0123456789'' [0, 1, 2, 3, 4, 5, 6, 7, 8, 9]) c"

definition upper_char :: "char \<Rightarrow> char" where
  "upper_char c = (case map_of (zip ''abcdefghijklmnopqrstuvwxyz'' ''ABCDEFGHIJKLMNOPQRSTUVWXYZ'') c
                   of None \<Rightarrow> c | Some u \<Rightarrow> u)"

definition upper :: "string \<Rightarrow> string" where
  "upper s = map upper_char s"

fun split_on :: "char \<Rightarrow> string \<Rightarrow> string list" where
  "split_on sep [] = [[]]"
| "split_on sep (c # cs) =
     (if c = sep then [] # split_on sep cs
      else (case split_on sep cs of [] \<Rightarrow> [[c]] | p # ps \<Rightarrow> (c # p) # ps))"

text \<open>
  \<^verbatim>\<open>int(s)\<close> on a string of decimal digits; any other string is taken to raise
  ValueError.
\<close>

fun digits_val :: "nat \<Rightarrow> string \<Rightarrow> nat option" where
  "digits_val acc [] = Some acc"
| "digits_val acc (c # cs) =
     (case digit_val c of None \<Rightarrow> None | Some d \<Rightarrow> digits_val (10 * acc + d) cs)"

definition int_of_string :: "string \<Rightarrow> py_error + nat" where
  "int_of_string s =
     (if s = [] then Inl ValueError
      else case digits_val 0 s of None \<Rightarrow> Inl ValueError | Some n \<Rightarrow> Inr n)"

text \<open>
  \<^verbatim>\<open>f"{x:.2f}"\<close>: two decimals, the exact value rounded half to even, after a minus
  sign when the sign bit of the float is set. A zero carries a sign bit, so the format
  takes it as an argument.
\<close>

fun show_nat :: "nat \<Rightarrow> string" where
  "show_nat n = (if n < 10 then [digit_char n] else show_nat (n div 10) @ [digit_char (n mod 10)])"

definition fmt2_signed :: "bool \<Rightarrow> real \<Rightarrow> string" where
  "fmt2_signed neg x =
     (let n = nat (round_half_even (\<bar>x\<bar> * 100))
      in (if neg then ''-'' else []) @ show_nat (n div 100) @ ''.''
         @ [digit_char ((n div 10) mod 10), digit_char (n mod 10)])"

text \<open>A float that is negative or a positive zero, as the sum of the ledger is.\<close>

definition fmt2 :: "real \<Rightarrow> string" where
  "fmt2 x = fmt2_signed (x < 0) x"

record SafetyConfig =
  tz_market :: string
  open_hhmm :: string
  close_hhmm :: string
  auction_pre_open_start :: string
  auction_pre_open_end :: string
  auction_close_start :: string
  auction_close_end :: string
  max_daily_loss_pct :: real

text \<open>
  \<open>OrderIntent\<close> (models.py). The fields \<open>regime\<close>, \<open>score\<close>, \<open>cost_bps\<close> and
  \<open>status\<close> carry the prefix \<open>order_\<close> here, the plain names being used elsewhere.
\<close>

record OrderIntent =
  ticker :: string
  side :: string
  order_type :: string
  tif :: string
  qty :: int
  notional :: real
  price_ref :: real
  limit_price :: "real option"
  stop :: "real option"
  target :: "real option"
  risk_pct :: real
  order_regime :: string
  order_score :: real
  order_cost_bps :: int
  order_status :: string
  tags :: string

text \<open>
  What the collaborators answer during one call of \<open>validate\<close>: the broker
  (\<open>ping\<close>, \<open>get_open_positions\<close>, each position a dict of strings), the clock (the time
  of day in the market's time zone as hour, minute, second, microsecond; the UTC date as
  \<open>YYYY-MM-DD\<close>) and the ledger of the store.
\<close>

type_synonym clock = "nat \<times> nat \<times> nat \<times> nat"

record world =
  broker_ping :: bool
  open_positions :: "(string \<rightharpoonup> string) list"
  now_market :: clock
  today_utc :: string
  ledger :: "ledger_row list"

text \<open>The collaborator calls that a run makes, in order.\<close>

datatype call = Ping | NowMarket | GetOpenPositions | UtcNow | DailyRealizedPnl string

record decision =
  ok :: bool
  reason :: string

definition parse_hhmm :: "string \<Rightarrow> py_error + nat \<times> nat" where
  "parse_hhmm hhmm =
     (case split_on CHR '':'' hhmm of
        [h, m] \<Rightarrow>
          (case int_of_string h of
             Inl e \<Rightarrow> Inl e
           | Inr hh \<Rightarrow> (case int_of_string m of Inl e \<Rightarrow> Inl e | Inr mm \<Rightarrow> Inr (hh, mm)))
      | _ \<Rightarrow> Inl ValueError)"

text \<open>Two datetimes of the same day and zone compare by their time of day.\<close>

definition clock_le :: "clock \<Rightarrow> clock \<Rightarrow> bool" where
  "clock_le a b =
     (case (a, b) of ((h1, m1, s1, u1), (h2, m2, s2, u2)) \<Rightarrow>
        h1 < h2 \<or> (h1 = h2 \<and> (m1 < m2 \<or> (m1 = m2 \<and> (s1 < s2 \<or> (s1 = s2 \<and> u1 \<le> u2))))))"

text \<open>
  \<^verbatim>\<open>now.replace(hour=h, minute=m, second=0, microsecond=0)\<close> raises ValueError for an
  hour above 23 or a minute above 59.
\<close>

definition replace_hm :: "clock \<Rightarrow> nat \<Rightarrow> nat \<Rightarrow> py_error + clock" where
  "replace_hm now h m = (if h > 23 \<or> m > 59 then Inl ValueError else Inr (h, m, 0, 0))"

definition in_range :: "clock \<Rightarrow> string \<Rightarrow> string \<Rightarrow> py_error + bool" where
  "in_range now start end =
     (case parse_hhmm start of
        Inl e \<Rightarrow> Inl e
      | Inr (sh, sm) \<Rightarrow>
          (case parse_hhmm end of
             Inl e \<Rightarrow> Inl e
           | Inr (eh, em) \<Rightarrow>
               (case replace_hm now sh sm of
                  Inl e \<Rightarrow> Inl e
                | Inr st \<Rightarrow>
                    (case replace_hm now eh em of
                       Inl e \<Rightarrow> Inl e
                     | Inr en \<Rightarrow> Inr (clock_le st now \<and> clock_le now en)))))"

definition is_trading_time :: "world \<Rightarrow> SafetyConfig \<Rightarrow> py_error + bool \<times> string" where
  "is_trading_time w cfg =
     (let now = now_market w
      in case in_range now (auction_pre_open_start cfg) (auction_pre_open_end cfg) of
           Inl e \<Rightarrow> Inl e
         | Inr True \<Rightarrow> Inr (False, ''AUCTION_PRE_OPEN'')
         | Inr False \<Rightarrow>
             (case in_range now (auction_close_start cfg) (auction_close_end cfg) of
                Inl e \<Rightarrow> Inl e
              | Inr True \<Rightarrow> Inr (False, ''AUCTION_CLOSE'')
              | Inr False \<Rightarrow>
                  (case in_range now (open_hhmm cfg) (close_hhmm cfg) of
                     Inl e \<Rightarrow> Inl e
                   | Inr False \<Rightarrow> Inr (False, ''OUTSIDE_MARKET_HOURS'')
                   | Inr True \<Rightarrow> Inr (True, ''OK''))))"

text \<open>
  \<open>_kill_switch\<close>. The limit is the negated double product
  \<^verbatim>\<open>capital * (max_daily_loss_pct / 100.0)\<close>, quotient and product each rounded. The
  sign bit of a product is set when exactly one factor is negative, also when the product
  is zero; the negation flips it.
\<close>

definition loss_limit :: "real \<Rightarrow> SafetyConfig \<Rightarrow> real" where
  "loss_limit capital cfg = - fl_mul capital (fl_div (max_daily_loss_pct cfg) 100)"

definition loss_limit_sign :: "real \<Rightarrow> SafetyConfig \<Rightarrow> bool" where
  "loss_limit_sign capital cfg = (\<not> ((capital < 0) \<noteq> (max_daily_loss_pct cfg < 0)))"

definition kill_switch :: "world \<Rightarrow> SafetyConfig \<Rightarrow> real \<Rightarrow> call list \<times> bool \<times> string" where
  "kill_switch w cfg capital =
     (let now_utc = today_utc w;
          pnl = daily_realized_pnl (ledger w) now_utc;
          limit = loss_limit capital cfg
      in ([UtcNow, DailyRealizedPnl now_utc],
          (if pnl \<le> limit
           then (False, ''KILL_SWITCH_DAILY_LOSS pnl='' @ fmt2 pnl @ '' limit=''
                         @ fmt2_signed (loss_limit_sign capital cfg) limit)
           else (True, ''OK''))))"

text \<open>The loop of \<open>_position_check\<close> over the positions; \<^verbatim>\<open>str(p.get("ticker", ""))\<close>.\<close>

definition position_ticker :: "(string \<rightharpoonup> string) \<Rightarrow> string" where
  "position_ticker p = (case p ''ticker'' of None \<Rightarrow> [] | Some t \<Rightarrow> t)"

fun position_loop :: "(string \<rightharpoonup> string) list \<Rightarrow> string \<Rightarrow> bool \<times> string" where
  "position_loop [] tk = (True, ''OK'')"
| "position_loop (p # ps) tk =
     (if upper (position_ticker p) = upper tk then (False, ''POSITION_ALREADY_OPEN'')
      else position_loop ps tk)"

definition position_check :: "world \<Rightarrow> string \<Rightarrow> call list \<times> bool \<times> string" where
  "position_check w tk = ([GetOpenPositions], position_loop (open_positions w) tk)"

text \<open>
  \<open>validate\<close> returns the calls it made together with its result; an exception of the
  time check propagates.
\<close>

definition validate ::
  "world \<Rightarrow> SafetyConfig \<Rightarrow> OrderIntent \<Rightarrow> real \<Rightarrow> call list \<times> (py_error + decision)" where
  "validate w cfg order capital =
     (if \<not> broker_ping w then ([Ping], Inr \<lparr>ok = False, reason = ''BROKER_OFFLINE''\<rparr>)
      else
        case is_trading_time w cfg of
          Inl e \<Rightarrow> ([Ping, NowMarket], Inl e)
        | Inr (ok_time, r_time) \<Rightarrow>
            if \<not> ok_time then ([Ping, NowMarket], Inr \<lparr>ok = False, reason = r_time\<rparr>)
            else
              case position_check w (ticker order) of
                (calls_pos, ok_pos, r_pos) \<Rightarrow>
                  if \<not> ok_pos
                  then ([Ping, NowMarket] @ calls_pos, Inr \<lparr>ok = False, reason = r_pos\<rparr>)
                  else
                    case kill_switch w cfg capital of
                      (calls_kill, ok_kill, r_kill) \<Rightarrow>
                        if \<not> ok_kill
                        then ([Ping, NowMarket] @ calls_pos @ calls_kill,
                              Inr \<lparr>ok = False, reason = r_kill\<rparr>)
                        else ([Ping, NowMarket] @ calls_pos @ calls_kill,
                              Inr \<lparr>ok = True, reason = ''OK''\<rparr>))"

section \<open>core/logic/risk.py\<close>







section \<open>core/logic/scores.py\<close>








section \<open>core/logic/indicators.py\<close>

subsection \<open>Float cells\<close>

text \<open>
  A cell of a pandas float column: a finite number, an infinity or NaN. Arithmetic on
  finite numbers is exact, the special values follow IEEE 754 (division by zero gives an
  infinity or NaN; zero carries no sign).
\<close>

datatype fval = Fin real | PInf | NInf | NaN

fun fneg :: "fval \<Rightarrow> fval" where
  "fneg (Fin a) = Fin (- a)"
| "fneg PInf = NInf"
| "fneg NInf = PInf"
| "fneg NaN = NaN"

fun fadd :: "fval \<Rightarrow> fval \<Rightarrow> fval" where
  "fadd (Fin a) (Fin b) = Fin (a + b)"
| "fadd NaN y = NaN"
| "fadd x NaN = NaN"
| "fadd PInf NInf = NaN"
| "fadd NInf PInf = NaN"
| "fadd PInf y = PInf"
| "fadd x PInf = PInf"
| "fadd NInf y = NInf"
| "fadd x NInf = NInf"

definition fsub :: "fval \<Rightarrow> fval \<Rightarrow> fval" where
  "fsub x y = fadd x (fneg y)"

fun fmul :: "fval \<Rightarrow> fval \<Rightarrow> fval" where
  "fmul (Fin a) (Fin b) = Fin (a * b)"
| "fmul NaN y = NaN"
| "fmul x NaN = NaN"
| "fmul PInf (Fin b) = (if b = 0 then NaN else if b > 0 then PInf else NInf)"
| "fmul NInf (Fin b) = (if b = 0 then NaN else if b > 0 then NInf else PInf)"
| "fmul (Fin a) PInf = (if a = 0 then NaN else if a > 0 then PInf else NInf)"
| "fmul (Fin a) NInf = (if a = 0 then NaN else if a > 0 then NInf else PInf)"
| "fmul PInf PInf = PInf"
| "fmul NInf NInf = PInf"
| "fmul PInf NInf = NInf"
| "fmul NInf PInf = NInf"

fun fdiv :: "fval \<Rightarrow> fval \<Rightarrow> fval" where
  "fdiv (Fin a) (Fin b) =
     (if b \<noteq> 0 then Fin (a / b) else if a = 0 then NaN else if a > 0 then PInf else NInf)"
| "fdiv NaN y = NaN"
| "fdiv x NaN = NaN"
| "fdiv (Fin a) PInf = Fin 0"
| "fdiv (Fin a) NInf = Fin 0"
| "fdiv PInf (Fin b) = (if b \<ge> 0 then PInf else NInf)"
| "fdiv NInf (Fin b) = (if b \<ge> 0 then NInf else PInf)"
| "fdiv x y = NaN"

fun fabs :: "fval \<Rightarrow> fval" where
  "fabs (Fin a) = Fin \<bar>a\<bar>"
| "fabs PInf = PInf"
| "fabs NInf = PInf"
| "fabs NaN = NaN"

text \<open>The comparison \<^verbatim>\<open>x <= y\<close>: false whenever a NaN takes part.\<close>

fun fle :: "fval \<Rightarrow> fval \<Rightarrow> bool" where
  "fle NaN y = False"
| "fle x NaN = False"
| "fle NInf y = True"
| "fle x PInf = True"
| "fle (Fin a) (Fin b) = (a \<le> b)"
| "fle x y = False"

text \<open>Maximum and minimum of two cells, NaN if either is.\<close>

definition fmax :: "fval \<Rightarrow> fval \<Rightarrow> fval" where
  "fmax x y = (if x = NaN \<or> y = NaN then NaN else if fle x y then y else x)"

definition fmin :: "fval \<Rightarrow> fval \<Rightarrow> fval" where
  "fmin x y = (if x = NaN \<or> y = NaN then NaN else if fle x y then x else y)"

subsection \<open>Series and frames\<close>

type_synonym series = "fval list"

text \<open>A frame: its columns in order, each a name and a series; all of one length.\<close>

type_synonym frame = "(string \<times> series) list"

definition get_col :: "frame \<Rightarrow> string \<Rightarrow> py_error + series" where
  "get_col d k = (case map_of d k of None \<Rightarrow> Inl (KeyError k) | Some c \<Rightarrow> Inr c)"

text \<open>\<^verbatim>\<open>d[k] = v\<close>: replaces the column of that name, or appends a new one.\<close>

fun set_col :: "string \<Rightarrow> series \<Rightarrow> frame \<Rightarrow> frame" where
  "set_col k v [] = [(k, v)]"
| "set_col k v ((k', c) # r) = (if k = k' then (k, v) # r else (k', c) # set_col k v r)"

definition nrows :: "frame \<Rightarrow> nat" where
  "nrows d = (case d of [] \<Rightarrow> 0 | (k, c) # r \<Rightarrow> length c)"

definition rectangular :: "frame \<Rightarrow> bool" where
  "rectangular d = list_all (\<lambda>(k, c). length c = nrows d) d"

text \<open>\<^verbatim>\<open>s.shift(1)\<close>, \<^verbatim>\<open>s.pct_change()\<close>, \<^verbatim>\<open>s.diff()\<close>, \<^verbatim>\<open>s.fillna(v)\<close>, \<^verbatim>\<open>s.clip(...)\<close>.\<close>

definition shift1 :: "series \<Rightarrow> series" where
  "shift1 xs = take (length xs) (NaN # xs)"

definition pct_change :: "series \<Rightarrow> series" where
  "pct_change xs = map2 (\<lambda>x p. fsub (fdiv x p) (Fin 1)) xs (shift1 xs)"

definition diff :: "series \<Rightarrow> series" where
  "diff xs = map2 fsub xs (shift1 xs)"

definition fillna :: "fval \<Rightarrow> series \<Rightarrow> series" where
  "fillna v xs = map (\<lambda>x. if x = NaN then v else x) xs"

definition clip_lower :: "fval \<Rightarrow> series \<Rightarrow> series" where
  "clip_lower lo xs = map (\<lambda>x. fmax x lo) xs"

definition clip_upper :: "fval \<Rightarrow> series \<Rightarrow> series" where
  "clip_upper hi xs = map (\<lambda>x. fmin x hi) xs"

text \<open>
  \<^verbatim>\<open>s.cumprod()\<close> and \<^verbatim>\<open>s.cummax()\<close> with pandas' default \<^verbatim>\<open>skipna=True\<close>: a NaN
  of the input gives NaN at its place and is left out of the running value; a NaN that the
  running product itself produces stays in it.
\<close>

fun cumprod_from :: "fval \<Rightarrow> series \<Rightarrow> series" where
  "cumprod_from acc [] = []"
| "cumprod_from acc (x # xs) =
     (if x = NaN then NaN # cumprod_from acc xs
      else fmul acc x # cumprod_from (fmul acc x) xs)"

definition cumprod :: "series \<Rightarrow> series" where
  "cumprod xs = cumprod_from (Fin 1) xs"

fun cummax_from :: "fval \<Rightarrow> series \<Rightarrow> series" where
  "cummax_from acc [] = []"
| "cummax_from acc (x # xs) =
     (if x = NaN then NaN # cummax_from acc xs
      else fmax acc x # cummax_from (fmax acc x) xs)"

definition cummax :: "series \<Rightarrow> series" where
  "cummax xs = cummax_from NInf xs"

text \<open>
  \<^verbatim>\<open>pd.concat([a, b, c], axis=1).max(axis=1)\<close>: the row maximum over the cells that are
  not NaN, NaN if all three are.
\<close>

definition nanmax2 :: "fval \<Rightarrow> fval \<Rightarrow> fval" where
  "nanmax2 x y = (if x = NaN then y else if y = NaN then x else fmax x y)"

definition row_max3 :: "series \<Rightarrow> series \<Rightarrow> series \<Rightarrow> series" where
  "row_max3 a b c = map2 nanmax2 a (map2 nanmax2 b c)"

text \<open>
  \<^verbatim>\<open>s.rolling(n)\<close> followed by an aggregation or by \<^verbatim>\<open>apply\<close>: with the default
  \<^verbatim>\<open>min_periods = n\<close> the result at row \<open>i\<close> is NaN unless the window of the \<open>n\<close> rows
  ending at \<open>i\<close> exists and holds no NaN; otherwise it is the aggregate of that window.
\<close>

definition rolling :: "nat \<Rightarrow> (series \<Rightarrow> fval) \<Rightarrow> series \<Rightarrow> series" where
  "rolling n f xs =
     map (\<lambda>i. if i + 1 < n then NaN
              else let w = take n (drop (i + 1 - n) xs)
                   in if list_ex (\<lambda>x. x = NaN) w then NaN else f w)
         [0..<length xs]"

text \<open>\<^verbatim>\<open>d.dropna()\<close>: the rows in which no column is NaN.\<close>

definition kept_rows :: "frame \<Rightarrow> nat list" where
  "kept_rows d = filter (\<lambda>i. list_all (\<lambda>(k, c). c ! i \<noteq> NaN) d) [0..<nrows d]"

definition dropna :: "frame \<Rightarrow> frame" where
  "dropna d = map (\<lambda>(k, c). (k, map (\<lambda>i. c ! i) (kept_rows d))) d"

subsection \<open>IndicatorEngine.calculate\<close>

text \<open>
  The numeric kernels of numpy, pandas and scipy that \<open>calculate\<close> calls are parameters of
  the model: \<^verbatim>\<open>np.log\<close> on a cell, \<^verbatim>\<open>np.sqrt\<close> on a number, the mean and the sample
  standard deviation of a rolling window, \<^verbatim>\<open>scipy.stats.skew\<close> and \<^verbatim>\<open>kurtosis(fisher=True)\<close>,
  \<^verbatim>\<open>np.quantile\<close> and \<^verbatim>\<open>Series.mean\<close>. None of them raises on float input.
\<close>

record kernels =
  np_log :: "fval \<Rightarrow> fval"
  np_sqrt :: "real \<Rightarrow> fval"
  roll_mean :: "series \<Rightarrow> fval"
  roll_std :: "series \<Rightarrow> fval"
  sp_skew :: "series \<Rightarrow> fval"
  sp_kurtosis :: "series \<Rightarrow> fval"
  np_quantile :: "series \<Rightarrow> real \<Rightarrow> fval"
  series_mean :: "series \<Rightarrow> fval"

text \<open>\<^verbatim>\<open>x.dropna()\<close> on the window handed to a rolling \<^verbatim>\<open>apply\<close>.\<close>

definition dropna_series :: "series \<Rightarrow> series" where
  "dropna_series xs = filter (\<lambda>x. x \<noteq> NaN) xs"

definition var95 :: "kernels \<Rightarrow> series \<Rightarrow> fval" where
  "var95 K x0 =
     (let x = dropna_series x0
      in if length x < 10 then NaN else np_quantile K x (5 / 100))"

definition cvar95 :: "kernels \<Rightarrow> series \<Rightarrow> fval" where
  "cvar95 K x0 =
     (let x = dropna_series x0
      in if length x < 10 then NaN
         else let var = np_quantile K x (5 / 100);
                  tail = filter (\<lambda>v. fle v var) x
              in if length tail > 0 then series_mean K tail else NaN)"

text \<open>
  Lines 13 to 62 of \<open>calculate\<close>: the frame with the sixteen derived columns, before the
  final \<^verbatim>\<open>dropna()\<close>. A missing column raises KeyError at its first read.
\<close>

definition TRADING_DAYS :: real where
  "TRADING_DAYS = 252"

definition indicators :: "kernels \<Rightarrow> frame \<Rightarrow> py_error + frame" where
  "indicators K df =
     (let d = df
      in case get_col d ''close_final'' of
           Inl e \<Rightarrow> Inl e
         | Inr close \<Rightarrow>
             let ret = pct_change close;
                 d = set_col ''ret'' ret d;
                 logret = map (np_log K) (map2 fdiv close (shift1 close));
                 d = set_col ''logret'' logret d;
                 sma20 = rolling 20 (roll_mean K) close;
                 d = set_col ''SMA20'' sma20 d;
                 d = set_col ''SMA50'' (rolling 50 (roll_mean K) close) d;
                 std20 = rolling 20 (roll_std K) close;
                 d = set_col ''STD20'' std20 d;
                 d = set_col ''ZScore''
                       (map2 fdiv (map2 fsub close sma20) (map (\<lambda>s. fadd s (Fin (1 / 10 ^ 9))) std20)) d;
                 delta = diff close;
                 gain = rolling 14 (roll_mean K) (clip_lower (Fin 0) delta);
                 loss = rolling 14 (roll_mean K) (map fneg (clip_upper (Fin 0) delta));
                 rs = map2 fdiv gain (map (\<lambda>l. fadd l (Fin (1 / 10 ^ 9))) loss);
                 d = set_col ''RSI14''
                       (map (\<lambda>r. fsub (Fin 100) (fdiv (Fin 100) (fadd (Fin 1) r))) rs) d
             in case get_col d ''high'' of
                  Inl e \<Rightarrow> Inl e
                | Inr high \<Rightarrow>
                    (case get_col d ''low'' of
                       Inl e \<Rightarrow> Inl e
                     | Inr low \<Rightarrow>
                         let tr = row_max3 (map2 fsub high low)
                                    (map fabs (map2 fsub high (shift1 close)))
                                    (map fabs (map2 fsub low (shift1 close)));
                             d = set_col ''ATR14'' (rolling 14 (roll_mean K) tr) d;
                             equity = cumprod (map (\<lambda>r. fadd (Fin 1) r) (fillna (Fin 0) ret));
                             d = set_col ''Equity'' equity d;
                             peak = cummax equity;
                             d = set_col ''Peak'' peak d;
                             d = set_col ''Drawdown'' (map2 fdiv (map2 fsub equity peak) peak) d;
                             d = set_col ''VolAnn''
                                   (map (\<lambda>s. fmul (fmul s (np_sqrt K TRADING_DAYS)) (Fin 100))
                                      (rolling 20 (roll_std K) logret)) d;
                             d = set_col ''Skew60''
                                   (rolling 60 (\<lambda>x. sp_skew K (dropna_series x)) ret) d;
                             d = set_col ''Kurt60''
                                   (rolling 60 (\<lambda>x. sp_kurtosis K (dropna_series x)) ret) d;
                             d = set_col ''VaR95'' (rolling 60 (var95 K) ret) d;
                             d = set_col ''CVaR95'' (rolling 60 (cvar95 K) ret) d
                         in Inr d))"

definition calculate :: "kernels \<Rightarrow> frame \<Rightarrow> py_error + frame" where
  "calculate K df = (case indicators K df of Inl e \<Rightarrow> Inl e | Inr d \<Rightarrow> Inr (dropna d))"

section \<open>core/data/data_router.py: the close-equivalent column\<close>

text \<open>
  Lines 79 to 84 of \<open>fetch_prices\<close> (in \<open>try_yahoo\<close>, column names already lower-cased):
  \<open>close_final\<close> is the adjusted close, else the close; with neither the code raises
  \<^verbatim>\<open>ValueError("no close")\<close>, which the enclosing \<^verbatim>\<open>except Exception\<close> records as a
  failed attempt.
\<close>

definition add_close_final :: "frame \<Rightarrow> py_error + frame" where
  "add_close_final df =
     (case map_of df ''adj close'' of
        Some c \<Rightarrow> Inr (set_col ''close_final'' c df)
      | None \<Rightarrow>
          (case map_of df ''close'' of
             Some c \<Rightarrow> Inr (set_col ''close_final'' c df)
           | None \<Rightarrow> Inl ValueError))"

section \<open>Example inputs\<close>

text \<open>
  An indicator row of a flat market (price on both moving averages, no volatility, no
  drawdown) with a chosen z-score; six of them make the shortest frame that
  \<open>analyze\<close> accepts.
\<close>

definition flat_row :: "real \<Rightarrow> indicator_row" where
  "flat_row zs = \<lparr>close_final = 100, SMA20 = 100, SMA50 = 100, ZScore = zs, VolAnn = 0,
      Drawdown = 0, VaR95 = Some 0, CVaR95 = Some 0\<rparr>"

text \<open>
  A flat row with a drawdown of -0.15 as a double (\<open>-5404319552844595 / 2^55\<close>, what
  \<open>calculate\<close> gives for closes 100, 2000, 1700).
\<close>

definition drawdown_row :: indicator_row where
  "drawdown_row = (flat_row 0)\<lparr>Drawdown := - (5404319552844595 / 36028797018963968)\<rparr>"

text \<open>
  The regime that \<open>analyze\<close> returns for six such rows with z-score 3 at a cost of 50 bps,
  and a regime with a comfortable operability score.
\<close>

definition costly_regime :: regime where
  "costly_regime = \<lparr>label = ''TRANSITION EXT'', z = 3, vol = 0, dd = 0, slope = 0, score = 14\<rparr>"

definition calm_regime :: regime where
  "calm_regime = \<lparr>label = ''UPTREND'', z = 0, vol = 12, dd = 0, slope = 1 / 100, score = 75\<rparr>"

text \<open>
  A regime whose drawdown is -0.2 as a double (\<open>-3602879701896397 / 2^54\<close>, what
  \<open>calculate\<close> gives for closes 100, 500, 400).
\<close>

definition edge_regime :: regime where
  "edge_regime = \<lparr>label = ''UPTREND'', z = 0, vol = 12,
     dd = - (3602879701896397 / 18014398509481984), slope = 1 / 100, score = 51\<rparr>"

text \<open>
  The default configuration of the application, an order for PETR4.SA, and a moment
  inside trading hours with today's ledger at -350 (and an older gain).
\<close>

definition default_cfg :: SafetyConfig where
  "default_cfg = \<lparr>tz_market = ''America/Sao_Paulo'', open_hhmm = ''10:00'',
     close_hhmm = ''17:55'', auction_pre_open_start = ''09:45'', auction_pre_open_end = ''10:00'',
     auction_close_start = ''17:45'', auction_close_end = ''18:10'', max_daily_loss_pct = 3\<rparr>"

definition petr_order :: OrderIntent where
  "petr_order = \<lparr>ticker = ''petr4.sa'', side = ''BUY'', order_type = ''MARKET'', tif = ''DAY'',
     qty = 100, notional = 3000, price_ref = 30, limit_price = None, stop = None, target = None,
     risk_pct = 1, order_regime = ''UPTREND'', order_score = 70, order_cost_bps = 12,
     order_status = ''AUTORIZADO'', tags = []\<rparr>"

definition losing_day :: world where
  "losing_day = \<lparr>broker_ping = True, open_positions = [],
     now_market = (11, 30, 15, 0), today_utc = ''2024-03-05'',
     ledger = [\<lparr>timestamp_utc = ''2024-03-04T15:00:00'', ledger_ticker = ''VALE3.SA'', realized_pnl = 999\<rparr>,
               \<lparr>timestamp_utc = ''2024-03-05T13:10:00'', ledger_ticker = ''VALE3.SA'', realized_pnl = - 200\<rparr>,
               \<lparr>timestamp_utc = ''2024-03-05T13:40:00'', ledger_ticker = ''ITUB4.SA'', realized_pnl = - 150\<rparr>]\<rparr>"




definition holding_day :: world where
  "holding_day = losing_day\<lparr>open_positions := [[''ticker'' \<mapsto> ''VALE3.SA''], [''ticker'' \<mapsto> ''PETR4.SA'']]\<rparr>"

text \<open>
  Kernels for examples: the mean of the finite cells of a window, and 0 for every other
  statistic.
\<close>

definition fin_mean :: "series \<Rightarrow> fval" where
  "fin_mean xs = fdiv (foldr fadd xs (Fin 0)) (Fin (real (length xs)))"

definition toy_kernels :: kernels where
  "toy_kernels = \<lparr>np_log = (\<lambda>x. Fin 0), np_sqrt = (\<lambda>x. Fin 16), roll_mean = fin_mean, roll_std = (\<lambda>w. Fin 0),
     sp_skew = (\<lambda>w. Fin 0), sp_kurtosis = (\<lambda>w. Fin 0), np_quantile = (\<lambda>w q. Fin 0),
     series_mean = fin_mean\<rparr>"

text \<open>Three bars closing at 100, 110 and 99, and the same bars without a close column.\<close>

definition three_bars :: frame where
  "three_bars = [(''open'', [Fin 100, Fin 101, Fin 108]), (''high'', [Fin 101, Fin 111, Fin 109]),
     (''low'', [Fin 99, Fin 100, Fin 98]), (''close'', [Fin 100, Fin 110, Fin 99]),
     (''close_final'', [Fin 100, Fin 110, Fin 99]), (''volume'', [Fin 1000, Fin 1200, Fin 900])]"

definition no_close_bars :: frame where
  "no_close_bars = [(''open'', [Fin 100, Fin 101, Fin 108]), (''high'', [Fin 101, Fin 111, Fin 109]),
     (''low'', [Fin 99, Fin 100, Fin 98]), (''volume'', [Fin 1000, Fin 1200, Fin 900])]"

text \<open>The three bars without their \<open>high\<close> column, and without their \<open>low\<close> column.\<close>

definition no_high_bars :: frame where
  "no_high_bars = [(''open'', [Fin 100, Fin 101, Fin 108]), (''low'', [Fin 99, Fin 100, Fin 98]),
     (''close_final'', [Fin 100, Fin 110, Fin 99])]"

definition no_low_bars :: frame where
  "no_low_bars = [(''open'', [Fin 100, Fin 101, Fin 108]), (''high'', [Fin 101, Fin 111, Fin 109]),
     (''close_final'', [Fin 100, Fin 110, Fin 99])]"

section \<open>Theorems\<close>

subsection \<open>CostEngine.compute\<close>

text \<open>
  Claim C6. For all integer inputs (in particular all non-negative ones),
  \<open>compute\<close> returns \<open>total_bps = spread + slippage + fee\<close>,
  \<open>break_even_pct = total_bps / 10000\<close> and \<open>blocked = (total_bps \<ge> max_block_bps)\<close>,
  so that \<open>total_bps = max_block_bps\<close> gives \<open>blocked\<close>; the result is a function of
  the four arguments alone, and \<open>total_bps\<close> and \<open>break_even_pct\<close> are monotonic
  non-decreasing in each of spread, slippage and fee.
\<close>

theorem compute_spec:
  "total_bps (compute s l f m) = s + l + f
   \<and> break_even_pct (compute s l f m) = real_of_int (total_bps (compute s l f m)) / 10000
   \<and> (blocked (compute s l f m) \<longleftrightarrow> total_bps (compute s l f m) \<ge> m)
   \<and> (total_bps (compute s l f m) = m \<longrightarrow> blocked (compute s l f m))
   \<and> (s \<le> s' \<longrightarrow> total_bps (compute s l f m) \<le> total_bps (compute s' l f m)
          \<and> break_even_pct (compute s l f m) \<le> break_even_pct (compute s' l f m))
   \<and> (l \<le> l' \<longrightarrow> total_bps (compute s l f m) \<le> total_bps (compute s l' f m)
          \<and> break_even_pct (compute s l f m) \<le> break_even_pct (compute s l' f m))
   \<and> (f \<le> f' \<longrightarrow> total_bps (compute s l f m) \<le> total_bps (compute s l f' m)
          \<and> break_even_pct (compute s l f m) \<le> break_even_pct (compute s l f' m))"
  by (simp add: compute_def Let_def)

theorem compute_spec_witness:
  "total_bps (compute 20 20 10 50) = 50
   \<and> blocked (compute 20 20 10 50)
   \<and> break_even_pct (compute 20 20 10 50) = 1 / 200
   \<and> total_bps (compute 20 20 10 50) \<le> total_bps (compute 21 20 10 50)
   \<and> total_bps (compute 20 20 10 50) \<le> total_bps (compute 20 25 10 50)
   \<and> break_even_pct (compute 20 20 10 50) \<le> break_even_pct (compute 20 20 12 50)"
  using compute_spec [of 20 20 10 50 21 25 12] by simp

subsection \<open>Rounding to doubles\<close>

lemma pow2_pos: "0 < pow2 e"
  by (simp add: pow2_def)

lemma round_half_even_nonneg: "0 \<le> x \<Longrightarrow> 0 \<le> round_half_even x"
  by (simp add: round_half_even_def Let_def)

lemma dbl_nonneg: "0 \<le> x \<Longrightarrow> 0 \<le> dbl x"
proof -
  assume x: "0 \<le> x"
  have "0 \<le> x / pow2 e" for e using x pow2_pos [of e] by simp
  then have "0 \<le> real_of_int (round_half_even (x / pow2 e)) * pow2 e" for e
    using round_half_even_nonneg [of "x / pow2 e"] pow2_pos [of e] by simp
  then show ?thesis by (simp add: dbl_def Let_def)
qed

lemma fl_mul_nonneg: "0 \<le> a \<Longrightarrow> 0 \<le> b \<Longrightarrow> 0 \<le> fl_mul a b"
  by (simp add: fl_mul_def dbl_nonneg)

subsection \<open>RegimeEngine.analyze: the operability score\<close>

lemma py_int_nonneg: "0 \<le> x \<Longrightarrow> 0 \<le> py_int x"
  by (simp add: py_int_def)

lemma py_int_floor: "0 \<le> x \<Longrightarrow> py_int x = \<lfloor>x\<rfloor>"
  by (simp add: py_int_def)

lemma cost_term_nonneg: "0 \<le> c \<Longrightarrow> 0 \<le> fl_mul (dbl (real_of_int c)) (dbl (8 / 10))"
  by (rule fl_mul_nonneg) (simp_all add: dbl_nonneg)

lemma operability_closed:
  assumes "0 \<le> c"
  shows "operability zs v d c =
    clamp (75 - \<lfloor>fl_mul \<bar>zs\<bar> 7\<rfloor> - \<lfloor>max 0 (fl_sub v 25)\<rfloor> - \<lfloor>fl_mul \<bar>d\<bar> 120\<rfloor>
             - \<lfloor>fl_mul (dbl (real_of_int c)) (dbl (8 / 10))\<rfloor>) 0 100"
proof -
  have 1: "py_int (fl_mul \<bar>zs\<bar> 7) = \<lfloor>fl_mul \<bar>zs\<bar> 7\<rfloor>"
    by (rule py_int_floor) (simp add: fl_mul_nonneg)
  have 2: "py_int (max 0 (fl_sub v 25)) = \<lfloor>max 0 (fl_sub v 25)\<rfloor>"
    by (rule py_int_floor) simp
  have 3: "py_int (fl_mul \<bar>d\<bar> 120) = \<lfloor>fl_mul \<bar>d\<bar> 120\<rfloor>"
    by (rule py_int_floor) (simp add: fl_mul_nonneg)
  have 4: "py_int (fl_mul (dbl (real_of_int c)) (dbl (8 / 10)))
      = \<lfloor>fl_mul (dbl (real_of_int c)) (dbl (8 / 10))\<rfloor>"
    by (rule py_int_floor) (rule cost_term_nonneg [OF assms])
  show ?thesis unfolding operability_def Let_def 1 2 3 4 ..
qed

lemma operability_bounds:
  assumes "0 \<le> c"
  shows "0 \<le> operability zs v d c \<and> operability zs v d c \<le> 75"
proof -
  have "0 \<le> py_int (fl_mul \<bar>zs\<bar> 7)" by (rule py_int_nonneg) (simp add: fl_mul_nonneg)
  moreover have "0 \<le> py_int (max 0 (fl_sub v 25))" by (rule py_int_nonneg) simp
  moreover have "0 \<le> py_int (fl_mul \<bar>d\<bar> 120)" by (rule py_int_nonneg) (simp add: fl_mul_nonneg)
  moreover have "0 \<le> py_int (fl_mul (dbl (real_of_int c)) (dbl (8 / 10)))"
    by (rule py_int_nonneg) (rule cost_term_nonneg [OF assms])
  ultimately show ?thesis unfolding operability_def Let_def clamp_def by simp
qed

lemma analyze_score:
  "analyze d c = Inr r \<Longrightarrow>
     d \<noteq> [] \<and> score r = operability (ZScore (last d)) (VolAnn (last d)) (Drawdown (last d)) c"
  by (auto simp: analyze_def Let_def last_conv_nth split: if_splits sum.splits)

text \<open>
  Values of the score. The third is a drawdown of -0.15 as a double
  (\<open>-5404319552844595 / 2^55\<close>), for which \<^verbatim>\<open>abs(dd) * 120\<close> rounds up to 18.0.
\<close>

lemma operability_eighth: "operability (1 / 8) 0 0 0 = 75"
  by (simp add: operability_def fl_mul_def fl_sub_def dbl_def round_half_even_def pow2_def
      py_int_def clamp_def numeral_eq_Suc Let_def)

lemma operability_costly: "operability 3 0 0 50 = 14"
  by (simp add: operability_def fl_mul_def fl_sub_def dbl_def round_half_even_def pow2_def
      py_int_def clamp_def numeral_eq_Suc Let_def)

lemma operability_drawdown_15: "operability 0 0 (- (5404319552844595 / 36028797018963968)) 0 = 57"
  by (simp add: operability_def fl_mul_def fl_sub_def dbl_def round_half_even_def pow2_def
      py_int_def clamp_def numeral_eq_Suc Let_def)

lemma dbl_zero: "dbl 0 = 0"
  by (simp add: dbl_def)

lemma dbl_values:
  "dbl (7 / 8) = 7 / 8" "dbl (593 / 8) = 593 / 8" "dbl 74 = 74" "dbl (- 25) = - 25"
  by (simp_all add: dbl_def round_half_even_def pow2_def numeral_eq_Suc Let_def)

lemma operability_spec_eighth: "operability_spec (1 / 8) 0 0 0 = 74"
  by (simp add: operability_spec_def fl_mul_def fl_sub_def dbl_zero dbl_values py_int_def
      clamp_def Let_def)

lemma analyze_flat_low: "analyze (replicate 6 (flat_row (1 / 8))) 0 =
     Inr \<lparr>label = ''TRANSITION'', z = 1 / 8, vol = 0, dd = 0, slope = 0, score = 75\<rparr>"
  by (simp add: analyze_def sma_slope_def flat_row_def Let_def operability_eighth)

lemma analyze_flat_costly: "analyze (replicate 6 (flat_row 3)) 50 = Inr costly_regime"
  by (simp add: analyze_def sma_slope_def flat_row_def costly_regime_def Let_def
      operability_costly)

lemma analyze_drawdown_15: "analyze (replicate 6 drawdown_row) 0 =
     Inr \<lparr>label = ''TRANSITION'', z = 0, vol = 0,
          dd = - (5404319552844595 / 36028797018963968), slope = 0, score = 57\<rparr>"
  by (simp add: analyze_def sma_slope_def drawdown_row_def flat_row_def Let_def
      operability_drawdown_15)

text \<open>
  Claim C4 (as amended). Whenever \<open>analyze\<close> returns for a cost of at least 0 bps, the
  operability score is 75 minus the four terms \<open>7|z|\<close>, \<open>max(0, VolAnn - 25)\<close>,
  \<open>120|Drawdown|\<close> and \<open>0.8 cost_bps\<close>, each term computed in double precision and
  truncated to an integer on its own before it is subtracted, the difference then clamped
  to \<open>[0, 100]\<close>. The running score itself is an integer throughout and is never
  truncated.
\<close>

theorem analyze_operability_terms:
  "analyze d c = Inr r \<Longrightarrow> 0 \<le> c \<Longrightarrow>
     score r = clamp (75 - \<lfloor>fl_mul \<bar>ZScore (last d)\<bar> 7\<rfloor>
                        - \<lfloor>max 0 (fl_sub (VolAnn (last d)) 25)\<rfloor>
                        - \<lfloor>fl_mul \<bar>Drawdown (last d)\<bar> 120\<rfloor>
                        - \<lfloor>fl_mul (dbl (real_of_int c)) (dbl (8 / 10))\<rfloor>) 0 100"
  using analyze_score [of d c r] operability_closed [of c] by simp

theorem analyze_operability_terms_witness:
  "analyze (replicate 6 (flat_row 3)) 50 = Inr costly_regime \<and> (0::int) \<le> 50
   \<and> score costly_regime = clamp (75 - \<lfloor>fl_mul \<bar>3\<bar> 7\<rfloor> - \<lfloor>max 0 (fl_sub 0 25)\<rfloor>
                        - \<lfloor>fl_mul \<bar>0\<bar> 120\<rfloor>
                        - \<lfloor>fl_mul (dbl (real_of_int 50)) (dbl (8 / 10))\<rfloor>) 0 100
   \<and> score costly_regime = 14
   \<and> analyze (replicate 6 drawdown_row) 0 =
     Inr \<lparr>label = ''TRANSITION'', z = 0, vol = 0,
          dd = - (5404319552844595 / 36028797018963968), slope = 0, score = 57\<rparr>
   \<and> \<lfloor>fl_mul \<bar>- (5404319552844595 / 36028797018963968)\<bar> 120\<rfloor> = 18"
proof -
  have h: "analyze (replicate 6 (flat_row 3)) 50 = Inr costly_regime"
    by (rule analyze_flat_costly)
  have t18: "\<lfloor>fl_mul \<bar>- (5404319552844595 / 36028797018963968)\<bar> 120\<rfloor> = 18"
    by (simp add: fl_mul_def dbl_def round_half_even_def pow2_def numeral_eq_Suc Let_def)
  have l: "ZScore (last (replicate 6 (flat_row 3))) = 3
     \<and> VolAnn (last (replicate 6 (flat_row 3))) = 0
     \<and> Drawdown (last (replicate 6 (flat_row 3))) = 0"
    by (simp add: flat_row_def)
  have v: "score costly_regime = 14" by (simp add: costly_regime_def)
  from analyze_operability_terms [OF h] l
  have "score costly_regime = clamp (75 - \<lfloor>fl_mul \<bar>3\<bar> 7\<rfloor> - \<lfloor>max 0 (fl_sub 0 25)\<rfloor>
                        - \<lfloor>fl_mul \<bar>0\<bar> 120\<rfloor>
                        - \<lfloor>fl_mul (dbl (real_of_int 50)) (dbl (8 / 10))\<rfloor>) 0 100"
    by simp
  moreover have "(0::int) \<le> 50" by simp
  ultimately show ?thesis using h v t18 analyze_drawdown_15 by blast
qed

text \<open>
  The procedure as the claim words it (truncate the running score after each
  subtraction) gives 74 where the code gives 75: for \<open>z = 0.125\<close> the code subtracts
  \<open>int(0.875) = 0\<close>, the claim's procedure computes \<open>int(75 - 0.875) = 74\<close>.
\<close>

theorem operability_spec_counterexample:
  "analyze (replicate 6 (flat_row (1 / 8))) 0 =
     Inr \<lparr>label = ''TRANSITION'', z = 1 / 8, vol = 0, dd = 0, slope = 0, score = 75\<rparr>
   \<and> operability_spec (1 / 8) 0 0 0 = 74"
  by (simp add: analyze_flat_low operability_spec_eighth)

text \<open>
  Claim C9. Whenever \<open>analyze\<close> returns for a cost of at least 0 bps, each of the four
  subtracted terms is a non-negative integer, so the operability score is at most 75
  (and at least 0): the upper clamp at 100 is never reached.
\<close>

theorem analyze_operability_le_75:
  "analyze d c = Inr r \<Longrightarrow> 0 \<le> c \<Longrightarrow>
     0 \<le> py_int (fl_mul \<bar>ZScore (last d)\<bar> 7) \<and> 0 \<le> py_int (max 0 (fl_sub (VolAnn (last d)) 25))
     \<and> 0 \<le> py_int (fl_mul \<bar>Drawdown (last d)\<bar> 120)
     \<and> 0 \<le> py_int (fl_mul (dbl (real_of_int c)) (dbl (8 / 10)))
     \<and> 0 \<le> score r \<and> score r \<le> 75 \<and> score r < 100"
proof -
  assume a: "analyze d c = Inr r" and c: "0 \<le> c"
  have s: "score r = operability (ZScore (last d)) (VolAnn (last d)) (Drawdown (last d)) c"
    using analyze_score [OF a] by simp
  have b: "0 \<le> score r \<and> score r \<le> 75"
    unfolding s by (rule operability_bounds [OF c])
  then have "score r < 100" by linarith
  with b cost_term_nonneg [OF c] show ?thesis by (simp add: py_int_nonneg fl_mul_nonneg)
qed

theorem analyze_operability_le_75_witness:
  "analyze (replicate 6 (flat_row (1 / 8))) 0 =
     Inr \<lparr>label = ''TRANSITION'', z = 1 / 8, vol = 0, dd = 0, slope = 0, score = 75\<rparr>
   \<and> (0::int) \<le> 0
   \<and> score \<lparr>label = ''TRANSITION'', z = 1 / 8, vol = 0, dd = 0, slope = 0, score = 75\<rparr> \<le> 75"
proof -
  have h: "analyze (replicate 6 (flat_row (1 / 8))) 0 =
     Inr \<lparr>label = ''TRANSITION'', z = 1 / 8, vol = 0, dd = 0, slope = 0, score = 75\<rparr>"
    by (rule analyze_flat_low)
  show ?thesis using h analyze_operability_le_75 [OF h] by simp
qed

subsection \<open>VerdictEngine.decide\<close>

lemma rule_block_escalates:
  "severity (fst st) \<le> severity (fst (rule_block c code st))
   \<and> take (length (snd st)) (snd (rule_block c code st)) = snd st"
  by (cases "fst st") (simp_all add: rule_block_def severity_def)

lemma rule_defensive_escalates:
  "severity (fst st) \<le> severity (fst (rule_defensive c code st))
   \<and> take (length (snd st)) (snd (rule_defensive c code st)) = snd st"
  by (cases "fst st") (simp_all add: rule_defensive_def severity_def)

lemma rule_guarded_escalates:
  "severity (fst st) \<le> severity (fst (rule_guarded c code st))
   \<and> take (length (snd st)) (snd (rule_guarded c code st)) = snd st"
  by (cases "fst st") (simp_all add: rule_guarded_def severity_def)

lemma cascade_rules_escalate:
  assumes "r \<in> set (cascade rg cb ruin_pct scr strict_vol strict_dd_pct ruin_threshold)"
  shows "severity (fst st) \<le> severity (fst (r st))
         \<and> take (length (snd st)) (snd (r st)) = snd st"
proof -
  from assms consider c code where "r = rule_block c code"
    | c code where "r = rule_defensive c code"
    | c code where "r = rule_guarded c code"
    unfolding cascade_def by auto
  then show ?thesis
  proof cases
    case 1 then show ?thesis by (simp only: rule_block_escalates)
  next
    case 2 then show ?thesis by (simp only: rule_defensive_escalates)
  next
    case 3 then show ?thesis by (simp only: rule_guarded_escalates)
  qed
qed

lemma run_rules_Suc:
  "k < length rs \<Longrightarrow> run_rules (take (Suc k) rs) = (rs ! k) (run_rules (take k rs))"
  by (simp add: run_rules_def take_Suc_conv_app_nth)

lemma run_rules_step:
  assumes "k < length rs"
    and "rs = cascade rg cb ruin_pct scr strict_vol strict_dd_pct ruin_threshold"
  shows "severity (fst (run_rules (take k rs))) \<le> severity (fst (run_rules (take (Suc k) rs)))
     \<and> take (length (snd (run_rules (take k rs)))) (snd (run_rules (take (Suc k) rs)))
        = snd (run_rules (take k rs))"
proof -
  have "rs ! k \<in> set (cascade rg cb ruin_pct scr strict_vol strict_dd_pct ruin_threshold)"
    using assms by simp
  from cascade_rules_escalate [OF this] show ?thesis
    by (simp only: run_rules_Suc [OF assms(1)])
qed

lemma defensive_open:
  "rule_defensive c code (if a then DEFENSIVO else AUTORIZADO, rs) =
     (if a \<or> c then DEFENSIVO else AUTORIZADO, rs @ reason_if c code)"
  by (simp add: rule_defensive_def reason_if_def)

lemma guarded_open:
  "rule_guarded c code (if a then DEFENSIVO else AUTORIZADO, rs) =
     (if a \<or> c then DEFENSIVO else AUTORIZADO, rs @ reason_if c code)"
  by (simp add: rule_guarded_def reason_if_def)

lemma defensive_blocked:
  "rule_defensive c code (BLOQUEIO, rs) = (BLOQUEIO, rs @ reason_if c code)"
  by (simp add: rule_defensive_def reason_if_def)

lemma guarded_blocked:
  "rule_guarded c code (BLOQUEIO, rs) = (BLOQUEIO, rs @ reason_if (c \<and> False) code)"
  by (simp add: rule_guarded_def reason_if_def)

lemma run_cascade_open:
  assumes "\<not> blocked cb"
  shows "run_rules (cascade rg cb ruin_pct scr strict_vol strict_dd_pct ruin_threshold) =
    ((if contains ''STRESS'' (label rg) \<or> contains ''VOL'' (label rg)
            \<or> vol rg > strict_vol \<or> fl_mul (dd rg) 100 < strict_dd_pct
            \<or> ruin_pct > ruin_threshold \<or> real_of_int (score rg) < 35 \<or> scr < 40
      then DEFENSIVO else AUTORIZADO),
     reason_if (contains ''STRESS'' (label rg)) ''REGIME_STRESS''
     @ reason_if (contains ''VOL'' (label rg)) ''REGIME_VOL''
     @ reason_if (vol rg > strict_vol) ''VOL_LIMIT''
     @ reason_if (fl_mul (dd rg) 100 < strict_dd_pct) ''DD_LIMIT''
     @ reason_if (ruin_pct > ruin_threshold) ''RUIN_HIGH''
     @ reason_if (real_of_int (score rg) < 35) ''OPERABILITY_LOW''
     @ reason_if (scr < 40) ''SCORE_LOW'')"
proof -
  have init: "rule_block (blocked cb) ''COST_BLOCK'' (AUTORIZADO, []) =
      (if False then DEFENSIVO else AUTORIZADO, [])"
    using assms by (simp add: rule_block_def)
  show ?thesis
    unfolding run_rules_def cascade_def fold_simps init defensive_open guarded_open
    by (simp split del: if_split)
qed

lemma run_cascade_blocked:
  assumes "blocked cb"
  shows "run_rules (cascade rg cb ruin_pct scr strict_vol strict_dd_pct ruin_threshold) =
    (BLOQUEIO,
     [''COST_BLOCK'']
     @ reason_if (contains ''STRESS'' (label rg)) ''REGIME_STRESS''
     @ reason_if (contains ''VOL'' (label rg)) ''REGIME_VOL''
     @ reason_if (vol rg > strict_vol) ''VOL_LIMIT''
     @ reason_if (fl_mul (dd rg) 100 < strict_dd_pct) ''DD_LIMIT''
     @ reason_if (ruin_pct > ruin_threshold) ''RUIN_HIGH'')"
proof -
  have init: "rule_block (blocked cb) ''COST_BLOCK'' (AUTORIZADO, []) = (BLOQUEIO, [''COST_BLOCK''])"
    using assms by (simp add: rule_block_def)
  have nil: "\<And>c code. reason_if (c \<and> False) code = []" by (simp add: reason_if_def)
  show ?thesis
    unfolding run_rules_def cascade_def fold_simps init defensive_blocked guarded_blocked nil
    by (simp split del: if_split)
qed

lemma run_cascade_closed:
  "run_rules (cascade rg cb ruin_pct scr strict_vol strict_dd_pct ruin_threshold) =
    ((if blocked cb then BLOQUEIO
      else if contains ''STRESS'' (label rg) \<or> contains ''VOL'' (label rg)
            \<or> vol rg > strict_vol \<or> fl_mul (dd rg) 100 < strict_dd_pct
            \<or> ruin_pct > ruin_threshold \<or> real_of_int (score rg) < 35 \<or> scr < 40
      then DEFENSIVO else AUTORIZADO),
     reason_if (blocked cb) ''COST_BLOCK''
     @ reason_if (contains ''STRESS'' (label rg)) ''REGIME_STRESS''
     @ reason_if (contains ''VOL'' (label rg)) ''REGIME_VOL''
     @ reason_if (vol rg > strict_vol) ''VOL_LIMIT''
     @ reason_if (fl_mul (dd rg) 100 < strict_dd_pct) ''DD_LIMIT''
     @ reason_if (ruin_pct > ruin_threshold) ''RUIN_HIGH''
     @ reason_if (real_of_int (score rg) < 35 \<and> \<not> blocked cb) ''OPERABILITY_LOW''
     @ reason_if (scr < 40 \<and> \<not> blocked cb) ''SCORE_LOW'')"
proof (cases "blocked cb")
  case True
  have nil: "\<And>code. reason_if False code = []" by (simp add: reason_if_def)
  have one: "\<And>code. reason_if True code = [code]" by (simp add: reason_if_def)
  show ?thesis unfolding run_cascade_blocked [OF True] using True
    by (simp add: nil one split del: if_split)
next
  case False
  have nil: "\<And>code. reason_if False code = []" by (simp add: reason_if_def)
  show ?thesis unfolding run_cascade_open [OF False] using False
    by (simp add: nil split del: if_split)
qed

text \<open>
  Claim C1 (as amended). For every input to \<open>decide\<close>, each rule of the cascade leaves
  the status where it is or escalates it along AUTORIZADO, DEFENSIVO, BLOQUEIO, and keeps
  the reasons recorded so far. The final status is BLOQUEIO when the cost is blocked,
  otherwise DEFENSIVO when any of the seven other conditions holds, otherwise AUTORIZADO.
  The reason codes of rules 1 to 6 (COST_BLOCK, REGIME_STRESS, REGIME_VOL, VOL_LIMIT,
  DD_LIMIT, RUIN_HIGH) are reported whenever their condition holds, whatever status has
  been reached; OPERABILITY_LOW and SCORE_LOW are reported when their condition holds
  and the cost is not blocked. The reasons keep rule order, and are \<open>["OK"]\<close> when no
  rule fires. The condition of DD_LIMIT is on the double product \<open>dd * 100\<close>: a drawdown
  of -0.2 gives -20.0, which is not below a limit of -20.
\<close>

theorem decide_cascade:
  "(\<forall>k < length (cascade rg cb ruin_pct scr strict_vol strict_dd_pct ruin_threshold).
      severity (fst (run_rules (take k
          (cascade rg cb ruin_pct scr strict_vol strict_dd_pct ruin_threshold))))
        \<le> severity (fst (run_rules (take (Suc k)
          (cascade rg cb ruin_pct scr strict_vol strict_dd_pct ruin_threshold))))
      \<and> take (length (snd (run_rules (take k
              (cascade rg cb ruin_pct scr strict_vol strict_dd_pct ruin_threshold)))))
           (snd (run_rules (take (Suc k)
              (cascade rg cb ruin_pct scr strict_vol strict_dd_pct ruin_threshold))))
         = snd (run_rules (take k
              (cascade rg cb ruin_pct scr strict_vol strict_dd_pct ruin_threshold))))
   \<and> status (decide rg cb ruin_pct scr strict_vol strict_dd_pct ruin_threshold) =
       (if blocked cb then BLOQUEIO
        else if contains ''STRESS'' (label rg) \<or> contains ''VOL'' (label rg)
              \<or> vol rg > strict_vol \<or> fl_mul (dd rg) 100 < strict_dd_pct
              \<or> ruin_pct > ruin_threshold \<or> real_of_int (score rg) < 35 \<or> scr < 40
        then DEFENSIVO else AUTORIZADO)
   \<and> reasons (decide rg cb ruin_pct scr strict_vol strict_dd_pct ruin_threshold) =
       (let rl = reason_if (blocked cb) ''COST_BLOCK''
              @ reason_if (contains ''STRESS'' (label rg)) ''REGIME_STRESS''
              @ reason_if (contains ''VOL'' (label rg)) ''REGIME_VOL''
              @ reason_if (vol rg > strict_vol) ''VOL_LIMIT''
              @ reason_if (fl_mul (dd rg) 100 < strict_dd_pct) ''DD_LIMIT''
              @ reason_if (ruin_pct > ruin_threshold) ''RUIN_HIGH''
              @ reason_if (real_of_int (score rg) < 35 \<and> \<not> blocked cb) ''OPERABILITY_LOW''
              @ reason_if (scr < 40 \<and> \<not> blocked cb) ''SCORE_LOW''
        in if rl = [] then [''OK''] else rl)"
proof (intro conjI allI impI)
  fix k
  assume "k < length (cascade rg cb ruin_pct scr strict_vol strict_dd_pct ruin_threshold)"
  from run_rules_step [OF this refl]
  show "severity (fst (run_rules (take k
          (cascade rg cb ruin_pct scr strict_vol strict_dd_pct ruin_threshold))))
        \<le> severity (fst (run_rules (take (Suc k)
          (cascade rg cb ruin_pct scr strict_vol strict_dd_pct ruin_threshold))))"
    and "take (length (snd (run_rules (take k
              (cascade rg cb ruin_pct scr strict_vol strict_dd_pct ruin_threshold)))))
           (snd (run_rules (take (Suc k)
              (cascade rg cb ruin_pct scr strict_vol strict_dd_pct ruin_threshold))))
         = snd (run_rules (take k
              (cascade rg cb ruin_pct scr strict_vol strict_dd_pct ruin_threshold)))"
    by simp_all
next
  show "status (decide rg cb ruin_pct scr strict_vol strict_dd_pct ruin_threshold) =
       (if blocked cb then BLOQUEIO
        else if contains ''STRESS'' (label rg) \<or> contains ''VOL'' (label rg)
              \<or> vol rg > strict_vol \<or> fl_mul (dd rg) 100 < strict_dd_pct
              \<or> ruin_pct > ruin_threshold \<or> real_of_int (score rg) < 35 \<or> scr < 40
        then DEFENSIVO else AUTORIZADO)"
    unfolding decide_def Let_def run_cascade_closed by simp
next
  show "reasons (decide rg cb ruin_pct scr strict_vol strict_dd_pct ruin_threshold) =
       (let rl = reason_if (blocked cb) ''COST_BLOCK''
              @ reason_if (contains ''STRESS'' (label rg)) ''REGIME_STRESS''
              @ reason_if (contains ''VOL'' (label rg)) ''REGIME_VOL''
              @ reason_if (vol rg > strict_vol) ''VOL_LIMIT''
              @ reason_if (fl_mul (dd rg) 100 < strict_dd_pct) ''DD_LIMIT''
              @ reason_if (ruin_pct > ruin_threshold) ''RUIN_HIGH''
              @ reason_if (real_of_int (score rg) < 35 \<and> \<not> blocked cb) ''OPERABILITY_LOW''
              @ reason_if (scr < 40 \<and> \<not> blocked cb) ''SCORE_LOW''
        in if rl = [] then [''OK''] else rl)"
    unfolding decide_def Let_def run_cascade_closed by simp
qed

lemma edge_product: "fl_mul (- (3602879701896397 / 18014398509481984)) 100 = - 20"
  by (simp add: fl_mul_def dbl_def round_half_even_def pow2_def numeral_eq_Suc Let_def)

lemma zero_product: "fl_mul 0 100 = 0"
  by (simp add: fl_mul_def dbl_zero)

theorem decide_cascade_witness:
  "(0::nat) < length (cascade calm_regime (compute 5 5 2 40) 30 35 45 (- 20) 22)
   \<and> severity (fst (run_rules (take 0 (cascade calm_regime (compute 5 5 2 40) 30 35 45 (- 20) 22))))
       \<le> severity (fst (run_rules (take (Suc 0)
            (cascade calm_regime (compute 5 5 2 40) 30 35 45 (- 20) 22))))
   \<and> status (decide calm_regime (compute 5 5 2 40) 30 35 45 (- 20) 22) = DEFENSIVO
   \<and> reasons (decide calm_regime (compute 5 5 2 40) 30 35 45 (- 20) 22)
       = [''RUIN_HIGH'', ''SCORE_LOW'']
   \<and> status (decide edge_regime (compute 5 5 2 40) 10 60 45 (- 20) 22) = AUTORIZADO
   \<and> reasons (decide edge_regime (compute 5 5 2 40) 10 60 45 (- 20) 22) = [''OK'']"
proof -
  note t = decide_cascade [of calm_regime "compute 5 5 2 40" 30 35 45 "- 20" 22]
  note u = decide_cascade [of edge_regime "compute 5 5 2 40" 10 60 45 "- 20" 22]
  have len: "(0::nat) < length (cascade calm_regime (compute 5 5 2 40) 30 35 45 (- 20) 22)"
    by (simp add: cascade_def)
  from t len have step:
    "severity (fst (run_rules (take 0 (cascade calm_regime (compute 5 5 2 40) 30 35 45 (- 20) 22))))
       \<le> severity (fst (run_rules (take (Suc 0)
            (cascade calm_regime (compute 5 5 2 40) 30 35 45 (- 20) 22))))"
    by blast
  have st: "status (decide calm_regime (compute 5 5 2 40) 30 35 45 (- 20) 22) = DEFENSIVO"
    using t by (simp add: calm_regime_def compute_def zero_product)
  have rs: "reasons (decide calm_regime (compute 5 5 2 40) 30 35 45 (- 20) 22)
       = [''RUIN_HIGH'', ''SCORE_LOW'']"
    using t by (simp add: calm_regime_def compute_def reason_if_def zero_product)
  have st': "status (decide edge_regime (compute 5 5 2 40) 10 60 45 (- 20) 22) = AUTORIZADO"
    using u by (simp add: edge_regime_def compute_def edge_product)
  have rs': "reasons (decide edge_regime (compute 5 5 2 40) 10 60 45 (- 20) 22) = [''OK'']"
    using u by (simp add: edge_regime_def compute_def reason_if_def edge_product)
  show ?thesis using len step st rs st' rs' by blast
qed

text \<open>
  With the cost blocked (50 bps against a limit of 40) and an operability score of 14
  and a final score of 30, the reasons are \<open>["COST_BLOCK"]\<close> alone: neither
  OPERABILITY_LOW nor SCORE_LOW is reported.
\<close>

theorem decide_blocked_counterexample:
  "blocked (compute 20 20 10 40) \<and> real_of_int (score costly_regime) < 35 \<and> (30::real) < 40
   \<and> reasons (decide costly_regime (compute 20 20 10 40) 0 30 45 (- 20) 22) = [''COST_BLOCK'']
   \<and> ''OPERABILITY_LOW'' \<notin> set (reasons (decide costly_regime (compute 20 20 10 40) 0 30 45 (- 20) 22))
   \<and> ''SCORE_LOW'' \<notin> set (reasons (decide costly_regime (compute 20 20 10 40) 0 30 45 (- 20) 22))"
  by (simp add: decide_def run_cascade_closed reason_if_def costly_regime_def compute_def
      zero_product)

subsection \<open>SafetyGuard.validate\<close>

lemma position_loop_hit:
  "p \<in> set ps \<Longrightarrow> upper (position_ticker p) = upper tk \<Longrightarrow>
     position_loop ps tk = (False, ''POSITION_ALREADY_OPEN'')"
  by (induction ps) auto

lemma position_loop_cases:
  "position_loop ps tk = (False, ''POSITION_ALREADY_OPEN'') \<or> position_loop ps tk = (True, ''OK'')"
  by (induction ps) auto

lemma is_trading_time_indep:
  "is_trading_time (w\<lparr>ledger := l, today_utc := t\<rparr>) (cfg\<lparr>max_daily_loss_pct := m\<rparr>)
     = is_trading_time w cfg"
  by (simp add: is_trading_time_def Let_def cong: sum.case_cong bool.case_cong)

lemma is_trading_time_ok: "is_trading_time w cfg = Inr (True, r) \<Longrightarrow> r = ''OK''"
  by (auto simp: is_trading_time_def Let_def split: sum.splits bool.splits)

text \<open>
  Claim C10. The open-position check is made on every call of \<open>validate\<close> that finds
  the broker reachable and the trading-time check passed, whatever the configuration
  (\<open>SafetyConfig\<close> has no field that switches it off). If then the broker reports a
  position whose ticker equals the order's ticker up to letter case, \<open>validate\<close> returns
  \<open>ok = False\<close> with reason POSITION_ALREADY_OPEN after the calls ping, now,
  get_open_positions only: the kill switch is not evaluated (neither the UTC date nor the
  ledger is read), and the result does not depend on the ledger, the date, the loss limit
  or the capital.
\<close>

theorem validate_position_open:
  assumes "broker_ping w" and "is_trading_time w cfg = Inr (True, r)"
  shows "GetOpenPositions \<in> set (fst (validate w cfg order capital))
     \<and> (p \<in> set (open_positions w) \<and> upper (position_ticker p) = upper (ticker order) \<longrightarrow>
          validate w cfg order capital =
            ([Ping, NowMarket, GetOpenPositions], Inr \<lparr>ok = False, reason = ''POSITION_ALREADY_OPEN''\<rparr>)
          \<and> UtcNow \<notin> set (fst (validate w cfg order capital))
          \<and> DailyRealizedPnl (today_utc w) \<notin> set (fst (validate w cfg order capital))
          \<and> validate (w\<lparr>ledger := l, today_utc := t\<rparr>) (cfg\<lparr>max_daily_loss_pct := m\<rparr>) order capital'
              = validate w cfg order capital)"
proof (intro conjI impI)
  show "GetOpenPositions \<in> set (fst (validate w cfg order capital))"
    using assms position_loop_cases [of "open_positions w" "ticker order"]
    by (auto simp: validate_def position_check_def kill_switch_def Let_def)
next
  assume h: "p \<in> set (open_positions w) \<and> upper (position_ticker p) = upper (ticker order)"
  then have hit: "position_loop (open_positions w) (ticker order) = (False, ''POSITION_ALREADY_OPEN'')"
    using position_loop_hit [of p "open_positions w" "ticker order"] by blast
  show v: "validate w cfg order capital =
            ([Ping, NowMarket, GetOpenPositions], Inr \<lparr>ok = False, reason = ''POSITION_ALREADY_OPEN''\<rparr>)"
    using assms hit by (simp add: validate_def position_check_def)
  show "UtcNow \<notin> set (fst (validate w cfg order capital))"
    and "DailyRealizedPnl (today_utc w) \<notin> set (fst (validate w cfg order capital))"
    unfolding v by simp_all
  show "validate (w\<lparr>ledger := l, today_utc := t\<rparr>) (cfg\<lparr>max_daily_loss_pct := m\<rparr>) order capital'
              = validate w cfg order capital"
    unfolding v using assms hit
    by (simp add: validate_def position_check_def is_trading_time_indep)
qed

lemma holding_time: "is_trading_time holding_day default_cfg = Inr (True, ''OK'')"
  by code_simp


theorem validate_position_open_witness:
  "broker_ping holding_day \<and> is_trading_time holding_day default_cfg = Inr (True, ''OK'')
   \<and> [''ticker'' \<mapsto> ''PETR4.SA''] \<in> set (open_positions holding_day)
   \<and> upper (position_ticker [''ticker'' \<mapsto> ''PETR4.SA'']) = upper (ticker petr_order)
   \<and> validate holding_day default_cfg petr_order 10000 =
        ([Ping, NowMarket, GetOpenPositions], Inr \<lparr>ok = False, reason = ''POSITION_ALREADY_OPEN''\<rparr>)"
proof -
  have a: "broker_ping holding_day" by (simp add: holding_day_def losing_day_def)
  have b: "is_trading_time holding_day default_cfg = Inr (True, ''OK'')" by (rule holding_time)
  have c: "[''ticker'' \<mapsto> ''PETR4.SA''] \<in> set (open_positions holding_day)"
    by (simp add: holding_day_def)
  have d: "upper (position_ticker [''ticker'' \<mapsto> ''PETR4.SA'']) = upper (ticker petr_order)"
    by (simp add: position_ticker_def petr_order_def upper_def upper_char_def)
  show ?thesis
    using a b c d validate_position_open [OF a b, of petr_order 10000 "[''ticker'' \<mapsto> ''PETR4.SA'']"]
    by simp
qed

















subsection \<open>RiskEngine.monte_carlo_ruin\<close>









subsection \<open>ScoreEngine.multi\<close>








subsection \<open>IndicatorEngine.calculate\<close>

lemma fdiv_NaN_right [simp]: "fdiv x NaN = NaN"
  by (cases x) simp_all

lemma fadd_NaN_right [simp]: "fadd x NaN = NaN"
  by (cases x) simp_all

lemma fle_trans: "fle x y \<Longrightarrow> fle y w \<Longrightarrow> fle x w"
  by (cases x; cases y; cases w) auto

lemma fle_refl: "x \<noteq> NaN \<Longrightarrow> fle x x"
  by (cases x) auto

lemma fle_not_NaN: "fle x y \<Longrightarrow> x \<noteq> NaN \<and> y \<noteq> NaN"
  by (cases x; cases y) auto

lemma fle_total: "x \<noteq> NaN \<Longrightarrow> y \<noteq> NaN \<Longrightarrow> fle x y \<or> fle y x"
  by (cases x; cases y) auto

lemma fmax_upper:
  "x \<noteq> NaN \<Longrightarrow> y \<noteq> NaN \<Longrightarrow> fle x (fmax x y) \<and> fle y (fmax x y) \<and> fmax x y \<noteq> NaN"
  using fle_total [of x y] fle_refl [of x] fle_refl [of y]
  by (auto simp: fmax_def)

text \<open>The running maximum dominates the series and its own starting value.\<close>

lemma cummax_from_length: "length (cummax_from acc xs) = length xs"
  by (induction xs arbitrary: acc) auto

lemma cumprod_from_length: "length (cumprod_from acc xs) = length xs"
  by (induction xs arbitrary: acc) auto

lemma cummax_from_dominates:
  assumes "acc \<noteq> NaN" and "fle b acc" and "i < length xs"
  shows "(xs ! i = NaN \<and> cummax_from acc xs ! i = NaN)
       \<or> (fle (xs ! i) (cummax_from acc xs ! i) \<and> fle b (cummax_from acc xs ! i))"
  using assms
proof (induction xs arbitrary: acc i)
  case Nil
  then show ?case by simp
next
  case (Cons x xs)
  show ?case
  proof (cases "x = NaN")
    case True
    show ?thesis
    proof (cases i)
      case 0
      with True show ?thesis by simp
    next
      case (Suc j)
      with Cons.prems have "j < length xs" by simp
      from Cons.IH [OF Cons.prems(1) Cons.prems(2) this] True Suc show ?thesis by simp
    qed
  next
    case False
    from fmax_upper [OF Cons.prems(1) False]
    have up: "fle acc (fmax acc x)" "fle x (fmax acc x)" "fmax acc x \<noteq> NaN" by simp_all
    have b: "fle b (fmax acc x)" using fle_trans [OF Cons.prems(2) up(1)] .
    show ?thesis
    proof (cases i)
      case 0
      with False up b show ?thesis by simp
    next
      case (Suc j)
      with Cons.prems have "j < length xs" by simp
      from Cons.IH [OF up(3) b this] False Suc show ?thesis by simp
    qed
  qed
qed

lemma drawdown_cell:
  assumes "fle e p" and "fle (Fin 1) p"
  shows "fdiv (fsub e p) p = NaN \<or> fle (fdiv (fsub e p) p) (Fin 0)"
proof (cases p)
  case (Fin b)
  with assms(2) have b: "1 \<le> b" by simp
  show ?thesis
  proof (cases e)
    case (Fin a)
    with \<open>p = Fin b\<close> assms(1) have "a \<le> b" by simp
    with b have "(a - b) / b \<le> 0" by (simp add: divide_le_0_iff)
    with Fin \<open>p = Fin b\<close> b show ?thesis by (simp add: fsub_def)
  next
    case PInf
    with \<open>p = Fin b\<close> assms(1) show ?thesis by simp
  next
    case NInf
    with \<open>p = Fin b\<close> b show ?thesis by (simp add: fsub_def)
  next
    case NaN
    with assms(1) show ?thesis by simp
  qed
next
  case PInf
  then show ?thesis by (cases e) (simp_all add: fsub_def)
next
  case NInf
  with assms(2) show ?thesis by simp
next
  case NaN
  with assms(2) show ?thesis by simp
qed

lemma shift1_length: "length (shift1 xs) = length xs"
  by (simp add: shift1_def)

lemma pct_change_length: "length (pct_change xs) = length xs"
  by (simp add: pct_change_def shift1_length)

lemma pct_change_first: "xs \<noteq> [] \<Longrightarrow> pct_change xs ! 0 = NaN"
  by (cases xs) (simp_all add: pct_change_def shift1_def fsub_def)

lemma pct_change_Cons: "pct_change (x # xs) = NaN # map2 (\<lambda>x p. fsub (fdiv x p) (Fin 1)) xs (take (length xs) (x # xs))"
  by (simp add: pct_change_def shift1_def fsub_def)

lemma rolling_length: "length (rolling n f xs) = length xs"
  by (simp add: rolling_def)

lemma equity_peak_drawdown:
  fixes close :: series
  defines "equity \<equiv> cumprod (map (\<lambda>r. fadd (Fin 1) r) (fillna (Fin 0) (pct_change close)))"
  defines "peak \<equiv> cummax equity"
  defines "drawdown \<equiv> map2 fdiv (map2 fsub equity peak) peak"
  shows "length equity = length close \<and> length peak = length close \<and> length drawdown = length close
    \<and> (\<forall>i < length close.
          (equity ! i = NaN \<or> fle (equity ! i) (peak ! i))
          \<and> (drawdown ! i = NaN \<or> fle (drawdown ! i) (Fin 0)))"
proof -
  have le: "length equity = length close"
    by (simp add: equity_def cumprod_def cumprod_from_length fillna_def pct_change_length)
  have lp: "length peak = length close"
    by (simp add: peak_def cummax_from_length cummax_def le)
  have ld: "length drawdown = length close"
    by (simp add: drawdown_def le lp)
  have cells: "(equity ! i = NaN \<and> peak ! i = NaN)
       \<or> (fle (equity ! i) (peak ! i) \<and> fle (Fin 1) (peak ! i))" if i: "i < length close" for i
  proof (cases close)
    case Nil
    with i show ?thesis by simp
  next
    case (Cons c cs)
    have eq: "equity = Fin 1 # cumprod_from (Fin 1) (map (\<lambda>r. fadd (Fin 1) r)
         (fillna (Fin 0) (map2 (\<lambda>x p. fsub (fdiv x p) (Fin 1)) cs (take (length cs) (c # cs)))))"
      (is "_ = Fin 1 # ?rest")
      unfolding equity_def Cons pct_change_Cons by (simp add: cumprod_def fillna_def)
    have pk: "peak = Fin 1 # cummax_from (Fin 1) ?rest"
      unfolding peak_def eq by (simp add: cummax_def fmax_def)
    show ?thesis
    proof (cases i)
      case 0
      then show ?thesis by (simp add: eq pk)
    next
      case (Suc j)
      with i le eq have j: "j < length ?rest" by simp
      have "(?rest ! j = NaN \<and> cummax_from (Fin 1) ?rest ! j = NaN)
         \<or> (fle (?rest ! j) (cummax_from (Fin 1) ?rest ! j) \<and> fle (Fin 1) (cummax_from (Fin 1) ?rest ! j))"
        by (rule cummax_from_dominates [OF _ _ j]) simp_all
      then show ?thesis unfolding eq pk Suc by simp
    qed
  qed
  have dds: "drawdown ! i = fdiv (fsub (equity ! i) (peak ! i)) (peak ! i)" if "i < length close" for i
    using that le lp by (simp add: drawdown_def)
  have "(equity ! i = NaN \<or> fle (equity ! i) (peak ! i))
          \<and> (drawdown ! i = NaN \<or> fle (drawdown ! i) (Fin 0))" if i: "i < length close" for i
  proof -
    from cells [OF i] show ?thesis
    proof
      assume "equity ! i = NaN \<and> peak ! i = NaN"
      then show ?thesis by (simp add: dds [OF i])
    next
      assume a: "fle (equity ! i) (peak ! i) \<and> fle (Fin 1) (peak ! i)"
      then show ?thesis using drawdown_cell [of "equity ! i" "peak ! i"] by (simp add: dds [OF i])
    qed
  qed
  with le lp ld show ?thesis by blast
qed

lemma map_of_set_col: "map_of (set_col k v d) k' = (if k' = k then Some v else map_of d k')"
  by (induction d) auto

lemma get_set_col: "get_col (set_col k v d) k' = (if k' = k then Inr v else get_col d k')"
  by (simp add: get_col_def map_of_set_col)

lemma set_col_not_Nil: "set_col k v d \<noteq> []"
  by (cases d) (auto split: if_splits)

text \<open>Frames whose columns all have \<open>n\<close> cells.\<close>

lemma all_len_set_col:
  "list_all (\<lambda>(k, c). length c = n) d \<Longrightarrow> length v = n \<Longrightarrow>
     list_all (\<lambda>(k, c). length c = n) (set_col k' v d)"
  by (induction d) auto

lemma all_len_nrows:
  "list_all (\<lambda>(k, c). length c = n) d \<Longrightarrow> d \<noteq> [] \<Longrightarrow> nrows d = n"
  by (cases d) (auto simp: nrows_def)

lemma all_len_get_col:
  "list_all (\<lambda>(k, c). length c = n) d \<Longrightarrow> get_col d k = Inr c \<Longrightarrow> length c = n"
  by (auto simp: get_col_def list_all_iff split: option.splits dest!: map_of_SomeD)

lemma rectangular_all_len: "rectangular d \<Longrightarrow> list_all (\<lambda>(k, c). length c = nrows d) d"
  by (simp add: rectangular_def)

lemma map_of_map_cols:
  "map_of (map (\<lambda>(k, c). (k, f c)) d) k = map_option f (map_of d k)"
  by (induction d) auto

lemma get_col_dropna:
  "get_col (dropna d) k =
     (case get_col d k of Inl e \<Rightarrow> Inl e | Inr c \<Rightarrow> Inr (map (\<lambda>i. c ! i) (kept_rows d)))"
  by (simp add: get_col_def dropna_def map_of_map_cols split: option.splits)

lemma kept_rows_cell:
  "i \<in> set (kept_rows d) \<Longrightarrow> get_col d k = Inr c \<Longrightarrow> c ! i \<noteq> NaN \<and> i < nrows d"
  by (auto simp: kept_rows_def get_col_def list_all_iff split: option.splits dest!: map_of_SomeD)

lemma nrows_dropna: "d \<noteq> [] \<Longrightarrow> nrows (dropna d) = length (kept_rows d)"
  by (cases d) (auto simp: nrows_def dropna_def)

lemma filter_upt_bound:
  assumes "\<And>i. i < n \<Longrightarrow> i < m \<Longrightarrow> \<not> P i"
  shows "length (filter P [0..<n]) \<le> n - m"
proof -
  have sub: "set (filter P [0..<n]) \<subseteq> {m..<n}"
  proof
    fix i assume "i \<in> set (filter P [0..<n])"
    then have "i < n" "P i" by simp_all
    with assms [of i] have "m \<le> i" by (cases "i < m") simp_all
    with \<open>i < n\<close> show "i \<in> {m..<n}" by simp
  qed
  have "card (set (filter P [0..<n])) \<le> card {m..<n}"
    by (rule card_mono [OF _ sub]) simp
  moreover have "card (set (filter P [0..<n])) = length (filter P [0..<n])"
    by (rule distinct_card) simp
  ultimately show ?thesis by simp
qed

text \<open>A rolling window of 60 over the returns is undefined in the first 60 rows.\<close>

lemma rolling60_ret_NaN:
  assumes "i < length close" and "i < 60"
  shows "rolling 60 f (pct_change close) ! i = NaN"
proof (cases "i + 1 < 60")
  case True
  with assms show ?thesis by (simp add: rolling_def pct_change_length)
next
  case False
  with assms have i: "i = 59" by simp
  from assms have ne: "close \<noteq> []" by auto
  have "pct_change close ! 0 = NaN" using ne by (rule pct_change_first)
  moreover have "0 < length (pct_change close)" using ne by (simp add: pct_change_length)
  ultimately have "NaN \<in> set (take 60 (pct_change close))"
    by (metis (no_types, lifting) in_set_conv_nth length_take min_less_iff_conj nth_take zero_less_numeral)
  then have "list_ex (\<lambda>x. x = NaN) (take 60 (pct_change close))" by (auto simp: list_ex_iff)
  with assms i show ?thesis by (simp add: rolling_def pct_change_length)
qed

lemma indicators_shape:
  assumes c: "get_col df ''close_final'' = Inr close"
    and h: "get_col df ''high'' = Inr high"
    and l: "get_col df ''low'' = Inr low"
  shows "\<exists>d. indicators K df = Inr d \<and> d \<noteq> []
     \<and> get_col d ''Equity'' = Inr (cumprod (map (\<lambda>r. fadd (Fin 1) r) (fillna (Fin 0) (pct_change close))))
     \<and> get_col d ''Peak'' = Inr (cummax (cumprod (map (\<lambda>r. fadd (Fin 1) r) (fillna (Fin 0) (pct_change close)))))
     \<and> get_col d ''Drawdown'' =
          Inr (map2 fdiv
                 (map2 fsub (cumprod (map (\<lambda>r. fadd (Fin 1) r) (fillna (Fin 0) (pct_change close))))
                    (cummax (cumprod (map (\<lambda>r. fadd (Fin 1) r) (fillna (Fin 0) (pct_change close))))))
                 (cummax (cumprod (map (\<lambda>r. fadd (Fin 1) r) (fillna (Fin 0) (pct_change close))))))
     \<and> get_col d ''Skew60'' = Inr (rolling 60 (\<lambda>x. sp_skew K (dropna_series x)) (pct_change close))
     \<and> (list_all (\<lambda>(k, c). length c = length close) df \<and> length high = length close
          \<and> length low = length close
          \<longrightarrow> list_all (\<lambda>(k, c). length c = length close) d)"
  using c h l
  by (simp add: indicators_def Let_def get_set_col set_col_not_Nil all_len_set_col
      pct_change_length shift1_length rolling_length cumprod_def cummax_def
      cumprod_from_length cummax_from_length fillna_def diff_def clip_lower_def clip_upper_def
      row_max3_def)

lemma indicators_Inr_cols:
  "indicators K df = Inr d \<Longrightarrow>
     \<exists>c h l. get_col df ''close_final'' = Inr c \<and> get_col df ''high'' = Inr h
        \<and> get_col df ''low'' = Inr l"
  by (auto simp: indicators_def Let_def get_set_col split: sum.splits)

lemma indicators_Inl:
  "indicators K df = Inl e \<Longrightarrow>
     e = KeyError ''close_final'' \<or> e = KeyError ''high'' \<or> e = KeyError ''low''"
  by (auto simp: indicators_def Let_def get_set_col get_col_def split: sum.splits option.splits)

lemma indicators_no_close:
  "''close_final'' \<notin> set (map fst df) \<Longrightarrow> indicators K df = Inl (KeyError ''close_final'')"
proof -
  assume "''close_final'' \<notin> set (map fst df)"
  then have "map_of df ''close_final'' = None" by (simp add: map_of_eq_None_iff)
  then show ?thesis by (simp add: indicators_def get_col_def)
qed

lemma indicators_no_high:
  "get_col df ''close_final'' = Inr c \<Longrightarrow> ''high'' \<notin> set (map fst df) \<Longrightarrow>
     indicators K df = Inl (KeyError ''high'')"
proof -
  assume c: "get_col df ''close_final'' = Inr c" and m: "''high'' \<notin> set (map fst df)"
  from m have "map_of df ''high'' = None" by (simp add: map_of_eq_None_iff)
  then have "get_col df ''high'' = Inl (KeyError ''high'')" by (simp add: get_col_def)
  with c show ?thesis by (simp add: indicators_def Let_def get_set_col)
qed

lemma indicators_no_low:
  "get_col df ''close_final'' = Inr c \<Longrightarrow> get_col df ''high'' = Inr h \<Longrightarrow>
     ''low'' \<notin> set (map fst df) \<Longrightarrow> indicators K df = Inl (KeyError ''low'')"
proof -
  assume c: "get_col df ''close_final'' = Inr c" and h: "get_col df ''high'' = Inr h"
    and m: "''low'' \<notin> set (map fst df)"
  from m have "map_of df ''low'' = None" by (simp add: map_of_eq_None_iff)
  then have "get_col df ''low'' = Inl (KeyError ''low'')" by (simp add: get_col_def)
  with c h show ?thesis by (simp add: indicators_def Let_def get_set_col)
qed

lemma calculate_Inr:
  "calculate K df = Inr out \<Longrightarrow> \<exists>d. indicators K df = Inr d \<and> out = dropna d"
  by (auto simp: calculate_def split: sum.splits)

lemma drawdown_full:
  assumes r: "rectangular df" and i: "indicators K df = Inr d"
  shows "d \<noteq> [] \<and> nrows d = nrows df
     \<and> (\<exists>eq pk dds. get_col d ''Equity'' = Inr eq \<and> get_col d ''Peak'' = Inr pk
          \<and> get_col d ''Drawdown'' = Inr dds
          \<and> length eq = nrows df \<and> length pk = nrows df \<and> length dds = nrows df
          \<and> (\<forall>i < nrows df. (eq ! i = NaN \<or> fle (eq ! i) (pk ! i))
                             \<and> (dds ! i = NaN \<or> fle (dds ! i) (Fin 0))))"
proof -
  from indicators_Inr_cols [OF i] obtain c h l where
    c: "get_col df ''close_final'' = Inr c" and h: "get_col df ''high'' = Inr h"
    and l: "get_col df ''low'' = Inr l" by blast
  note al = rectangular_all_len [OF r]
  have lc: "length c = nrows df" and lh: "length h = nrows df" and ll: "length l = nrows df"
    using all_len_get_col [OF al c] all_len_get_col [OF al h] all_len_get_col [OF al l]
    by simp_all
  from indicators_shape [OF c h l, of K] i obtain
    ne: "d \<noteq> []"
    and eq: "get_col d ''Equity'' = Inr (cumprod (map (\<lambda>r. fadd (Fin 1) r) (fillna (Fin 0) (pct_change c))))"
    and pk: "get_col d ''Peak'' = Inr (cummax (cumprod (map (\<lambda>r. fadd (Fin 1) r) (fillna (Fin 0) (pct_change c)))))"
    and dds: "get_col d ''Drawdown'' =
          Inr (map2 fdiv
                 (map2 fsub (cumprod (map (\<lambda>r. fadd (Fin 1) r) (fillna (Fin 0) (pct_change c))))
                    (cummax (cumprod (map (\<lambda>r. fadd (Fin 1) r) (fillna (Fin 0) (pct_change c))))))
                 (cummax (cumprod (map (\<lambda>r. fadd (Fin 1) r) (fillna (Fin 0) (pct_change c))))))"
    and al': "list_all (\<lambda>(k, col). length col = length c) df \<and> length h = length c
          \<and> length l = length c
          \<longrightarrow> list_all (\<lambda>(k, col). length col = length c) d"
    by auto
  from al' al lc lh ll have "list_all (\<lambda>(k, col). length col = nrows df) d" by simp
  from all_len_nrows [OF this ne] have n: "nrows d = nrows df" .
  let ?eq = "cumprod (map (\<lambda>r. fadd (Fin 1) r) (fillna (Fin 0) (pct_change c)))"
  let ?pk = "cummax ?eq"
  let ?dds = "map2 fdiv (map2 fsub ?eq ?pk) ?pk"
  from equity_peak_drawdown [of c]
  have L: "length ?eq = nrows df \<and> length ?pk = nrows df \<and> length ?dds = nrows df
    \<and> (\<forall>i < nrows df.
          (?eq ! i = NaN \<or> fle (?eq ! i) (?pk ! i))
          \<and> (?dds ! i = NaN \<or> fle (?dds ! i) (Fin 0)))"
    unfolding lc .
  have "get_col d ''Equity'' = Inr ?eq \<and> get_col d ''Peak'' = Inr ?pk
          \<and> get_col d ''Drawdown'' = Inr ?dds
          \<and> length ?eq = nrows df \<and> length ?pk = nrows df \<and> length ?dds = nrows df
          \<and> (\<forall>i < nrows df. (?eq ! i = NaN \<or> fle (?eq ! i) (?pk ! i))
                             \<and> (?dds ! i = NaN \<or> fle (?dds ! i) (Fin 0)))"
    using eq pk dds L by (intro conjI) (elim conjE, assumption)+
  then have "\<exists>eq pk dds. get_col d ''Equity'' = Inr eq \<and> get_col d ''Peak'' = Inr pk
          \<and> get_col d ''Drawdown'' = Inr dds
          \<and> length eq = nrows df \<and> length pk = nrows df \<and> length dds = nrows df
          \<and> (\<forall>i < nrows df. (eq ! i = NaN \<or> fle (eq ! i) (pk ! i))
                             \<and> (dds ! i = NaN \<or> fle (dds ! i) (Fin 0)))"
    by (intro exI)
  with ne n show ?thesis by (intro conjI)
qed

text \<open>
  Claim C7. For every rectangular input frame and whatever the numeric kernels return:
  in every row of the frame that \<open>calculate\<close> builds, Equity is NaN or at most its running
  Peak, and Drawdown \<open>= (Equity - Peak) / Peak\<close> is NaN or at most 0 (the first return counts
  as 0, so Equity starts at 1 and the Peak is at least 1); the rows that \<open>calculate\<close>
  returns hold no NaN, so every one of them has \<open>Drawdown \<le> 0\<close>.
\<close>

theorem calculate_drawdown_nonpositive:
  assumes "rectangular df"
  shows "(indicators K df = Inr d \<longrightarrow>
           (\<exists>eq pk dds. get_col d ''Equity'' = Inr eq \<and> get_col d ''Peak'' = Inr pk
              \<and> get_col d ''Drawdown'' = Inr dds
              \<and> length eq = nrows df \<and> length pk = nrows df \<and> length dds = nrows df
              \<and> (\<forall>i < nrows df. (eq ! i = NaN \<or> fle (eq ! i) (pk ! i))
                                 \<and> (dds ! i = NaN \<or> fle (dds ! i) (Fin 0)))))
       \<and> (calculate K df = Inr out \<longrightarrow>
           (\<exists>dds. get_col out ''Drawdown'' = Inr dds \<and> (\<forall>v \<in> set dds. fle v (Fin 0))))"
proof (intro conjI impI)
  assume "indicators K df = Inr d"
  from drawdown_full [OF assms this]
  show "\<exists>eq pk dds. get_col d ''Equity'' = Inr eq \<and> get_col d ''Peak'' = Inr pk
              \<and> get_col d ''Drawdown'' = Inr dds
              \<and> length eq = nrows df \<and> length pk = nrows df \<and> length dds = nrows df
              \<and> (\<forall>i < nrows df. (eq ! i = NaN \<or> fle (eq ! i) (pk ! i))
                                 \<and> (dds ! i = NaN \<or> fle (dds ! i) (Fin 0)))"
    by blast
next
  assume "calculate K df = Inr out"
  from calculate_Inr [OF this] obtain d' where
    i: "indicators K df = Inr d'" and out: "out = dropna d'" by blast
  from drawdown_full [OF assms i] obtain dds where
    n: "nrows d' = nrows df" and dds: "get_col d' ''Drawdown'' = Inr dds"
    and cells: "\<forall>i < nrows df. dds ! i = NaN \<or> fle (dds ! i) (Fin 0)"
    by blast
  have g: "get_col out ''Drawdown'' = Inr (map (\<lambda>i. dds ! i) (kept_rows d'))"
    by (simp add: out get_col_dropna dds)
  have "fle v (Fin 0)" if "v \<in> set (map (\<lambda>i. dds ! i) (kept_rows d'))" for v
  proof -
    from that obtain i where k: "i \<in> set (kept_rows d')" and v: "v = dds ! i" by auto
    from kept_rows_cell [OF k dds] n cells v show ?thesis by auto
  qed
  with g show "\<exists>dds. get_col out ''Drawdown'' = Inr dds \<and> (\<forall>v \<in> set dds. fle v (Fin 0))"
    by blast
qed

lemma three_bars_rect: "rectangular three_bars"
  by (simp add: rectangular_def three_bars_def nrows_def)

lemma three_bars_drawdown:
  "(case indicators toy_kernels three_bars of Inl e \<Rightarrow> Inl e | Inr d \<Rightarrow> get_col d ''Drawdown'')
     = Inr [Fin 0, Fin 0, Fin (- (1 / 10))]"
  by code_simp

lemma three_bars_output:
  "(case calculate toy_kernels three_bars of Inl e \<Rightarrow> Inl e | Inr d \<Rightarrow> get_col d ''Drawdown'')
     = Inr []"
  by code_simp

theorem calculate_drawdown_nonpositive_witness:
  "rectangular three_bars
   \<and> (\<exists>d. indicators toy_kernels three_bars = Inr d
          \<and> get_col d ''Drawdown'' = Inr [Fin 0, Fin 0, Fin (- (1 / 10))]
          \<and> (\<forall>i < nrows three_bars. fle ([Fin 0, Fin 0, Fin (- (1 / 10))] ! i) (Fin 0)))
   \<and> (\<exists>out dds. calculate toy_kernels three_bars = Inr out
          \<and> get_col out ''Drawdown'' = Inr dds \<and> (\<forall>v \<in> set dds. fle v (Fin 0)))"
proof -
  from three_bars_drawdown obtain d where
    i: "indicators toy_kernels three_bars = Inr d"
    and g: "get_col d ''Drawdown'' = Inr [Fin 0, Fin 0, Fin (- (1 / 10))]"
    by (auto split: sum.splits)
  from three_bars_output obtain out where
    o: "calculate toy_kernels three_bars = Inr out"
    by (auto split: sum.splits)
  note t = calculate_drawdown_nonpositive [OF three_bars_rect, of toy_kernels d out]
  from t i g
  have "\<forall>i < nrows three_bars. [Fin 0, Fin 0, Fin (- (1 / 10))] ! i = NaN
           \<or> fle ([Fin 0, Fin 0, Fin (- (1 / 10))] ! i) (Fin 0)"
    by auto
  moreover have "\<forall>i < nrows three_bars. [Fin 0, Fin 0, Fin (- (1 / 10))] ! i \<noteq> NaN"
    by (auto simp: nrows_def three_bars_def nth_Cons split: nat.splits)
  ultimately have a: "\<forall>i < nrows three_bars. fle ([Fin 0, Fin 0, Fin (- (1 / 10))] ! i) (Fin 0)"
    by blast
  from t o have b: "\<exists>dds. get_col out ''Drawdown'' = Inr dds \<and> (\<forall>v \<in> set dds. fle v (Fin 0))"
    by blast
  from three_bars_rect i g a o b show ?thesis by blast
qed

lemma add_close_final_cases:
  "(''adj close'' \<notin> set (map fst df) \<and> ''close'' \<notin> set (map fst df)
      \<longrightarrow> add_close_final df = Inl ValueError)
   \<and> (add_close_final df = Inr d' \<longrightarrow> (\<exists>c. get_col d' ''close_final'' = Inr c))
   \<and> add_close_final df \<noteq> Inl DataError"
proof -
  have none: "k \<notin> set (map fst df) \<Longrightarrow> map_of df k = None" for k
    by (simp add: map_of_eq_None_iff)
  show ?thesis
    by (auto simp: add_close_final_def none get_set_col split: option.splits)
qed

text \<open>
  Claim C3 (as amended). \<open>calculate\<close> fails on a frame without a \<open>close_final\<close> column,
  with the KeyError of the column lookup, and likewise with a KeyError on a frame that
  has \<open>close_final\<close> but no \<open>high\<close>, or has both but no \<open>low\<close>; these KeyErrors are its
  only failures, never a DataError. On a frame that has these three
  columns it returns for any number of rows: with \<open>n\<close> rows of input the output has at
  most \<open>n - 60\<close> rows, and none when \<open>n \<le> 60\<close>. Upstream, the data router fails with a
  ValueError (no DataError either) when a downloaded frame has neither an adjusted close
  nor a close, and otherwise hands on a frame that has \<open>close_final\<close>.
\<close>

theorem calculate_failures:
  "(''close_final'' \<notin> set (map fst df) \<longrightarrow> calculate K df = Inl (KeyError ''close_final''))
   \<and> (get_col df ''close_final'' = Inr c \<and> ''high'' \<notin> set (map fst df)
        \<longrightarrow> calculate K df = Inl (KeyError ''high''))
   \<and> (get_col df ''close_final'' = Inr c \<and> get_col df ''high'' = Inr h
        \<and> ''low'' \<notin> set (map fst df)
        \<longrightarrow> calculate K df = Inl (KeyError ''low''))
   \<and> (calculate K df = Inl e \<longrightarrow>
        e = KeyError ''close_final'' \<or> e = KeyError ''high'' \<or> e = KeyError ''low'')
   \<and> calculate K df \<noteq> Inl DataError
   \<and> (rectangular df \<and> get_col df ''close_final'' = Inr c \<and> get_col df ''high'' = Inr h
        \<and> get_col df ''low'' = Inr l
      \<longrightarrow> (\<exists>out. calculate K df = Inr out \<and> nrows out \<le> nrows df - 60
              \<and> (nrows df \<le> 60 \<longrightarrow> nrows out = 0)))
   \<and> (''adj close'' \<notin> set (map fst raw) \<and> ''close'' \<notin> set (map fst raw)
        \<longrightarrow> add_close_final raw = Inl ValueError)
   \<and> (add_close_final raw = Inr d' \<longrightarrow> (\<exists>cf. get_col d' ''close_final'' = Inr cf))
   \<and> add_close_final raw \<noteq> Inl DataError"
proof (intro conjI impI)
  assume "''adj close'' \<notin> set (map fst raw) \<and> ''close'' \<notin> set (map fst raw)"
  then show "add_close_final raw = Inl ValueError"
    using add_close_final_cases [of raw] by blast
next
  assume "add_close_final raw = Inr d'"
  then show "\<exists>cf. get_col d' ''close_final'' = Inr cf"
    using add_close_final_cases [of raw d'] by blast
next
  show "add_close_final raw \<noteq> Inl DataError"
    using add_close_final_cases [of raw] by blast
next
  assume "''close_final'' \<notin> set (map fst df)"
  then show "calculate K df = Inl (KeyError ''close_final'')"
    by (simp add: calculate_def indicators_no_close)
next
  assume "get_col df ''close_final'' = Inr c \<and> ''high'' \<notin> set (map fst df)"
  then show "calculate K df = Inl (KeyError ''high'')"
    by (simp add: calculate_def indicators_no_high)
next
  assume "get_col df ''close_final'' = Inr c \<and> get_col df ''high'' = Inr h
        \<and> ''low'' \<notin> set (map fst df)"
  then show "calculate K df = Inl (KeyError ''low'')"
    by (simp add: calculate_def indicators_no_low)
next
  assume "calculate K df = Inl e"
  then show "e = KeyError ''close_final'' \<or> e = KeyError ''high'' \<or> e = KeyError ''low''"
    using indicators_Inl [of K df e] by (auto simp: calculate_def split: sum.splits)
next
  show "calculate K df \<noteq> Inl DataError"
    using indicators_Inl [of K df DataError] by (auto simp: calculate_def split: sum.splits)
next
  assume a: "rectangular df \<and> get_col df ''close_final'' = Inr c \<and> get_col df ''high'' = Inr h
        \<and> get_col df ''low'' = Inr l"
  then have r: "rectangular df" and c: "get_col df ''close_final'' = Inr c"
    and h: "get_col df ''high'' = Inr h" and l: "get_col df ''low'' = Inr l" by simp_all
  from indicators_shape [OF c h l, of K] obtain d where
    i: "indicators K df = Inr d"
    and sk: "get_col d ''Skew60'' = Inr (rolling 60 (\<lambda>x. sp_skew K (dropna_series x)) (pct_change c))"
    by blast
  from drawdown_full [OF r i] have ne: "d \<noteq> []" and n: "nrows d = nrows df" by simp_all
  have lc: "length c = nrows df" using all_len_get_col [OF rectangular_all_len [OF r] c] .
  have drop: "\<not> list_all (\<lambda>(k, col). col ! j \<noteq> NaN) d" if "j < nrows d" "j < 60" for j
  proof
    assume "list_all (\<lambda>(k, col). col ! j \<noteq> NaN) d"
    moreover from sk have "(''Skew60'', rolling 60 (\<lambda>x. sp_skew K (dropna_series x)) (pct_change c)) \<in> set d"
      by (auto simp: get_col_def split: option.splits dest!: map_of_SomeD)
    ultimately have "rolling 60 (\<lambda>x. sp_skew K (dropna_series x)) (pct_change c) ! j \<noteq> NaN"
      by (auto simp: list_all_iff)
    with rolling60_ret_NaN [of j c] that n lc show False by simp
  qed
  have len: "length (kept_rows d) \<le> nrows d - 60"
    unfolding kept_rows_def by (rule filter_upt_bound) (rule drop)
  have out: "calculate K df = Inr (dropna d)" by (simp add: calculate_def i)
  have "nrows (dropna d) \<le> nrows df - 60" using len n by (simp add: nrows_dropna [OF ne])
  then show "\<exists>out. calculate K df = Inr out \<and> nrows out \<le> nrows df - 60
              \<and> (nrows df \<le> 60 \<longrightarrow> nrows out = 0)"
    using out by auto
qed

lemma three_bars_cols:
  "get_col three_bars ''close_final'' = Inr [Fin 100, Fin 110, Fin 99]
   \<and> get_col three_bars ''high'' = Inr [Fin 101, Fin 111, Fin 109]
   \<and> get_col three_bars ''low'' = Inr [Fin 99, Fin 100, Fin 98]"
  by (simp add: three_bars_def get_col_def)

theorem calculate_failures_witness:
  "''close_final'' \<notin> set (map fst no_close_bars)
   \<and> calculate toy_kernels no_close_bars = Inl (KeyError ''close_final'')
   \<and> rectangular three_bars
   \<and> get_col three_bars ''close_final'' = Inr [Fin 100, Fin 110, Fin 99]
   \<and> get_col three_bars ''high'' = Inr [Fin 101, Fin 111, Fin 109]
   \<and> get_col three_bars ''low'' = Inr [Fin 99, Fin 100, Fin 98]
   \<and> nrows three_bars \<le> 60
   \<and> (\<exists>out. calculate toy_kernels three_bars = Inr out \<and> nrows out = 0)
   \<and> ''adj close'' \<notin> set (map fst no_close_bars) \<and> ''close'' \<notin> set (map fst no_close_bars)
   \<and> add_close_final no_close_bars = Inl ValueError
   \<and> get_col no_high_bars ''close_final'' = Inr [Fin 100, Fin 110, Fin 99]
   \<and> ''high'' \<notin> set (map fst no_high_bars)
   \<and> calculate toy_kernels no_high_bars = Inl (KeyError ''high'')
   \<and> get_col no_low_bars ''close_final'' = Inr [Fin 100, Fin 110, Fin 99]
   \<and> get_col no_low_bars ''high'' = Inr [Fin 101, Fin 111, Fin 109]
   \<and> ''low'' \<notin> set (map fst no_low_bars)
   \<and> calculate toy_kernels no_low_bars = Inl (KeyError ''low'')"
proof -
  have hc: "get_col no_high_bars ''close_final'' = Inr [Fin 100, Fin 110, Fin 99]"
    and hh: "''high'' \<notin> set (map fst no_high_bars)"
    by (simp_all add: no_high_bars_def get_col_def)
  from calculate_failures [where df = no_high_bars and K = toy_kernels
      and c = "[Fin 100, Fin 110, Fin 99]"] hc hh
  have he: "calculate toy_kernels no_high_bars = Inl (KeyError ''high'')" by blast
  have lc: "get_col no_low_bars ''close_final'' = Inr [Fin 100, Fin 110, Fin 99]"
    and lh: "get_col no_low_bars ''high'' = Inr [Fin 101, Fin 111, Fin 109]"
    and ll: "''low'' \<notin> set (map fst no_low_bars)"
    by (simp_all add: no_low_bars_def get_col_def)
  from calculate_failures [where df = no_low_bars and K = toy_kernels
      and c = "[Fin 100, Fin 110, Fin 99]" and h = "[Fin 101, Fin 111, Fin 109]"] lc lh ll
  have le: "calculate toy_kernels no_low_bars = Inl (KeyError ''low'')" by blast
  have r: "''adj close'' \<notin> set (map fst no_close_bars) \<and> ''close'' \<notin> set (map fst no_close_bars)"
    by (simp add: no_close_bars_def)
  from calculate_failures [where raw = no_close_bars] r
  have v: "add_close_final no_close_bars = Inl ValueError" by blast
  have a: "''close_final'' \<notin> set (map fst no_close_bars)" by (simp add: no_close_bars_def)
  have n: "nrows three_bars \<le> 60" by (simp add: nrows_def three_bars_def)
  from calculate_failures [where df = no_close_bars and K = toy_kernels] a
  have b: "calculate toy_kernels no_close_bars = Inl (KeyError ''close_final'')" by blast
  from calculate_failures [where df = three_bars and K = toy_kernels
      and c = "[Fin 100, Fin 110, Fin 99]" and h = "[Fin 101, Fin 111, Fin 109]"
      and l = "[Fin 99, Fin 100, Fin 98]"] three_bars_rect three_bars_cols n
  have c: "\<exists>out. calculate toy_kernels three_bars = Inr out \<and> nrows out = 0" by blast
  from a b c n r v three_bars_rect three_bars_cols hc hh he lc lh ll le show ?thesis by blast
qed

text \<open>
  On three bars without a \<open>close_final\<close> column the failure is
  \<open>KeyError('close_final')\<close>, not a DataError.
\<close>

theorem calculate_data_error_counterexample:
  "''close_final'' \<notin> set (map fst no_close_bars)
   \<and> calculate toy_kernels no_close_bars = Inl (KeyError ''close_final'')
   \<and> calculate toy_kernels no_close_bars \<noteq> Inl DataError"
  by (simp add: no_close_bars_def calculate_def indicators_def get_col_def)

end
